theory Spec2Isabelle
  imports Main
begin

section \<open>Python values used by the integration\<close>

text \<open>
  Exceptions are values. Each constructor carries the text that \<open>str(e)\<close> yields.
  \<open>ClientError\<close> stands for whatever the HTTP client raises (time-out, connection
  reset, a body that is not JSON).
\<close>

datatype exn =
    ValueError string
  | OverflowError string
  | AttributeError string
  | TypeError string
  | ClientError string
  | ConfigEntryAuthFailed string

fun exn_str :: "exn \<Rightarrow> string" where
  "exn_str (ValueError m) = m"
| "exn_str (OverflowError m) = m"
| "exn_str (AttributeError m) = m"
| "exn_str (TypeError m) = m"
| "exn_str (ClientError m) = m"
| "exn_str (ConfigEntryAuthFailed m) = m"

text \<open>Decimal text of an integer, as \<open>str(n)\<close> and the f-string \<open>{n}\<close> produce it.\<close>

definition digit_char :: "nat \<Rightarrow> char" where
  "digit_char n = char_of (48 + n)"

function str_nat :: "nat \<Rightarrow> string" where
  "str_nat n = (if n < 10 then [digit_char n] else str_nat (n div 10) @ [digit_char (n mod 10)])"
  by pat_completeness auto
termination
  by (relation "measure (\<lambda>n. n)") auto

declare str_nat.simps [simp del]

definition str_int :: "int \<Rightarrow> string" where
  "str_int i = (if i < 0 then CHR ''-'' # str_nat (nat (- i)) else str_nat (nat i))"

section \<open>Calendar dates\<close>

text \<open>
  A \<open>datetime.date\<close> has the attributes year, month and day. The constructor
  \<open>date(y, m, d)\<close> raises ValueError outside the proleptic Gregorian calendar of the
  years 1 to 9999; differences and comparisons go through the day ordinal
  (\<open>date(1, 1, 1)\<close> has ordinal 1), as in the library's reference implementation.
\<close>

record date =
  year :: int
  month :: int
  day :: int

definition is_leap :: "int \<Rightarrow> bool" where
  "is_leap y = (y mod 4 = 0 \<and> (y mod 100 \<noteq> 0 \<or> y mod 400 = 0))"

definition days_in_month :: "int \<Rightarrow> int \<Rightarrow> int" where
  "days_in_month y m =
     (if m = 2 then (if is_leap y then 29 else 28)
      else if m = 4 \<or> m = 6 \<or> m = 9 \<or> m = 11 then 30 else 31)"

definition days_before_year :: "int \<Rightarrow> int" where
  "days_before_year y = (y - 1) * 365 + (y - 1) div 4 - (y - 1) div 100 + (y - 1) div 400"

definition days_before_month_table :: "int list" where
  "days_before_month_table = [0, 0, 31, 59, 90, 120, 151, 181, 212, 243, 273, 304, 334]"

definition days_before_month :: "int \<Rightarrow> int \<Rightarrow> int" where
  "days_before_month y m =
     days_before_month_table ! nat m + (if m > 2 \<and> is_leap y then 1 else 0)"

definition MAXYEAR :: int where
  "MAXYEAR = 9999"

definition MAXORDINAL :: int where
  "MAXORDINAL = 3652059"

definition valid_date :: "date \<Rightarrow> bool" where
  "valid_date d =
     (1 \<le> year d \<and> year d \<le> MAXYEAR \<and> 1 \<le> month d \<and> month d \<le> 12 \<and>
      1 \<le> day d \<and> day d \<le> days_in_month (year d) (month d))"

definition date_new :: "int \<Rightarrow> int \<Rightarrow> int \<Rightarrow> exn + date" where
  "date_new y m d =
     (if \<not> (1 \<le> y \<and> y \<le> MAXYEAR) then Inl (ValueError ''year is out of range'')
      else if \<not> (1 \<le> m \<and> m \<le> 12) then Inl (ValueError ''month must be in 1..12'')
      else if \<not> (1 \<le> d \<and> d \<le> days_in_month y m) then
        Inl (ValueError ''day is out of range for month'')
      else Inr \<lparr>year = y, month = m, day = d\<rparr>)"

definition toordinal :: "date \<Rightarrow> int" where
  "toordinal d = days_before_year (year d) + days_before_month (year d) (month d) + day d"

text \<open>
  \<open>date.fromordinal\<close>: the library's division by the cycles of 400, 100, 4 and 1
  years. \<open>month_day_of\<close> is its last part, which estimates the month from the day
  index within the year and steps back one month where the estimate is too high.
\<close>

definition month_day_of :: "bool \<Rightarrow> int \<Rightarrow> int \<times> int" where
  "month_day_of leapyear n =
     (let m = (n + 50) div 32;
          preceding = days_before_month_table ! nat m + (if m > 2 \<and> leapyear then 1 else 0)
      in if preceding > n then
           (let m' = m - 1;
                preceding' = preceding -
                  ((if m' = 2 then 28 else if m' = 4 \<or> m' = 6 \<or> m' = 9 \<or> m' = 11 then 30 else 31)
                   + (if m' = 2 \<and> leapyear then 1 else 0))
            in (m', n - preceding' + 1))
         else (m, n - preceding + 1))"

definition fromordinal :: "int \<Rightarrow> date" where
  "fromordinal n0 =
     (let n = n0 - 1;
          n400 = n div 146097; n = n mod 146097;
          n100 = n div 36524; n = n mod 36524;
          n4 = n div 1461; n = n mod 1461;
          n1 = n div 365; n = n mod 365;
          y = n400 * 400 + 1 + n100 * 100 + n4 * 4 + n1
      in if n1 = 4 \<or> n100 = 4 then \<lparr>year = y - 1, month = 12, day = 31\<rparr>
         else
           (let leapyear = (n1 = 3 \<and> (n4 \<noteq> 24 \<or> n100 = 3))
            in case month_day_of leapyear n of (m, dd) \<Rightarrow> \<lparr>year = y, month = m, day = dd\<rparr>))"

text \<open>\<open>(a - b).days\<close> for two dates.\<close>

definition date_diff_days :: "date \<Rightarrow> date \<Rightarrow> int" where
  "date_diff_days a b = toordinal a - toordinal b"

text \<open>
  \<open>d - timedelta(days=n)\<close>: the timedelta constructor refuses more than 999999999
  days, and the subtraction refuses a result outside the calendar.
\<close>

definition date_sub_days :: "date \<Rightarrow> int \<Rightarrow> exn + date" where
  "date_sub_days d n =
     (if \<bar>n\<bar> > 999999999 then
        Inl (OverflowError (''days='' @ str_int n @ ''; must have magnitude <= 999999999''))
      else if 1 \<le> toordinal d - n \<and> toordinal d - n \<le> MAXORDINAL then
        Inr (fromordinal (toordinal d - n))
      else Inl (OverflowError ''date value out of range''))"

text \<open>Dates compare as their (year, month, day) triples.\<close>

definition date_less :: "date \<Rightarrow> date \<Rightarrow> bool" where
  "date_less a b =
     (year a < year b \<or> (year a = year b \<and> (month a < month b \<or>
        (month a = month b \<and> day a < day b))))"

definition date_ge :: "date \<Rightarrow> date \<Rightarrow> bool" where
  "date_ge a b = (\<not> date_less a b)"

section \<open>Text\<close>

text \<open>
  A text is a list of characters; a \<open>char\<close> stands for the code point of the same
  number, so the texts covered are those over U+0000 to U+00FF. The character classes
  are those of Python's \<open>re\<close> on \<open>str\<close> patterns and of \<open>str.isspace\<close>, cut to
  that range.
\<close>

definition code :: "char \<Rightarrow> nat" where
  "code c = of_char c"

definition is_digit :: "char \<Rightarrow> bool" where
  "is_digit c = (48 \<le> code c \<and> code c \<le> 57)"

definition is_space :: "char \<Rightarrow> bool" where
  "is_space c = ((9 \<le> code c \<and> code c \<le> 13) \<or> (28 \<le> code c \<and> code c \<le> 32)
     \<or> code c = 133 \<or> code c = 160)"

definition is_word :: "char \<Rightarrow> bool" where
  "is_word c =
     ((48 \<le> code c \<and> code c \<le> 57) \<or> (65 \<le> code c \<and> code c \<le> 90) \<or> code c = 95
      \<or> (97 \<le> code c \<and> code c \<le> 122) \<or> code c = 170 \<or> code c = 178 \<or> code c = 179
      \<or> code c = 181 \<or> code c = 185 \<or> code c = 186 \<or> (188 \<le> code c \<and> code c \<le> 190)
      \<or> (192 \<le> code c \<and> code c \<le> 214) \<or> (216 \<le> code c \<and> code c \<le> 246)
      \<or> (248 \<le> code c \<and> code c \<le> 255))"

text \<open>\<open>str.lower\<close> on that range.\<close>

definition lower_char :: "char \<Rightarrow> char" where
  "lower_char c =
     (if (65 \<le> code c \<and> code c \<le> 90) \<or> (192 \<le> code c \<and> code c \<le> 222 \<and> code c \<noteq> 215)
      then char_of (code c + 32) else c)"

definition py_lower :: "string \<Rightarrow> string" where
  "py_lower s = map lower_char s"

definition py_strip :: "string \<Rightarrow> string" where
  "py_strip s = rev (dropWhile is_space (rev (dropWhile is_space s)))"

text \<open>\<open>s.rstrip('/')\<close>.\<close>

definition rstrip_slash :: "string \<Rightarrow> string" where
  "rstrip_slash s = rev (dropWhile (\<lambda>c. c = CHR ''/'') (rev s))"

fun startswith :: "string \<Rightarrow> string \<Rightarrow> bool" where
  "startswith s [] = True"
| "startswith [] (p # ps) = False"
| "startswith (c # cs) (p # ps) = (c = p \<and> startswith cs ps)"

text \<open>\<open>sub in s\<close> for two texts.\<close>

fun contains :: "string \<Rightarrow> string \<Rightarrow> bool" where
  "contains [] sub = (sub = [])"
| "contains (c # cs) sub = (startswith (c # cs) sub \<or> contains cs sub)"

text \<open>
  \<open>s.split(sep)\<close> for a non-empty separator: the pieces between the occurrences of
  \<open>sep\<close>, found from the left without overlap. \<open>acc\<close> holds the current piece,
  reversed.
\<close>

function split_acc :: "string \<Rightarrow> string \<Rightarrow> string \<Rightarrow> string list" where
  "split_acc sep acc [] = [rev acc]"
| "split_acc sep acc (c # cs) =
     (if sep \<noteq> [] \<and> startswith (c # cs) sep
      then rev acc # split_acc sep [] (drop (length sep) (c # cs))
      else split_acc sep (c # acc) cs)"
  by pat_completeness auto
termination
  by (relation "measure (\<lambda>(sep, acc, s). length s)") auto

definition py_split :: "string \<Rightarrow> string \<Rightarrow> string list" where
  "py_split s sep = split_acc sep [] s"

text \<open>\<open>s.replace(old, new)\<close> for a non-empty \<open>old\<close>.\<close>

definition py_replace :: "string \<Rightarrow> string \<Rightarrow> string \<Rightarrow> string" where
  "py_replace s old new =
     (let ps = py_split s old in concat (hd ps # map (\<lambda>p. new @ p) (tl ps)))"

text \<open>\<open>int(s)\<close> on a text of decimal digits.\<close>

definition py_int :: "string \<Rightarrow> int" where
  "py_int s = foldl (\<lambda>a c. 10 * a + (int (code c) - 48)) 0 s"

text \<open>A dictionary literal read with \<open>.get\<close>.\<close>

definition dict_get :: "('k \<times> 'v) list \<Rightarrow> 'k \<Rightarrow> 'v option" where
  "dict_get d k = map_of d k"

section \<open>Regular expressions\<close>

text \<open>
  Every pattern of the integration is a sequence of single-character classes, each with
  a greedy repetition \<open>{min,max}\<close>. \<open>rmatch\<close> is the backtracking matcher anchored at
  the head of the text: it tries the longest repetition first, then shorter ones, and
  returns how many characters each atom took. \<open>rsearch\<close> is \<open>re.search\<close>: the first
  start position with a match, returned as the text from there on.
\<close>

datatype ratom = RAtom "char \<Rightarrow> bool" nat "nat option"

fun first_some :: "'a option list \<Rightarrow> 'a option" where
  "first_some [] = None"
| "first_some (Some x # xs) = Some x"
| "first_some (None # xs) = first_some xs"

fun rmatch :: "ratom list \<Rightarrow> string \<Rightarrow> nat list option" where
  "rmatch [] s = Some []"
| "rmatch (RAtom p mn mx # rs) s =
     (let k = length (takeWhile p s);
          hi = (case mx of None \<Rightarrow> k | Some m \<Rightarrow> min k m)
      in first_some (map (\<lambda>n. map_option (\<lambda>ns. n # ns) (rmatch rs (drop n s)))
                         (rev [mn..<Suc hi])))"

fun rsearch :: "ratom list \<Rightarrow> string \<Rightarrow> (string \<times> nat list) option" where
  "rsearch rs [] = (case rmatch rs [] of Some ns \<Rightarrow> Some ([], ns) | None \<Rightarrow> None)"
| "rsearch rs (c # cs) =
     (case rmatch rs (c # cs) of Some ns \<Rightarrow> Some (c # cs, ns) | None \<Rightarrow> rsearch rs cs)"

text \<open>The text each atom took, in order.\<close>

fun pieces :: "nat list \<Rightarrow> string \<Rightarrow> string list" where
  "pieces [] s = []"
| "pieces (n # ns) s = take n s # pieces ns (drop n s)"

definition one :: "char \<Rightarrow> ratom" where
  "one c = RAtom (\<lambda>x. x = c) 1 (Some 1)"

definition lit :: "string \<Rightarrow> ratom list" where
  "lit s = map one s"

text \<open>\<open>(\d+)\.\s*(\w+\.?)\<close>: group 1 is piece 0, group 2 is pieces 3 and 4.\<close>

definition re_day_month :: "ratom list" where
  "re_day_month =
     [RAtom is_digit 1 None, one CHR ''.'', RAtom is_space 0 None, RAtom is_word 1 None,
      RAtom (\<lambda>x. x = CHR ''.'') 0 (Some 1)]"

text \<open>\<open>(\d{1,2})\.(\d{1,2})\.(\d{4})\<close>: the groups are pieces 0, 2 and 4.\<close>

definition re_numeric_date :: "ratom list" where
  "re_numeric_date =
     [RAtom is_digit 1 (Some 2), one CHR ''.'', RAtom is_digit 1 (Some 2), one CHR ''.'',
      RAtom is_digit 4 (Some 4)]"

section \<open>Parsing German dates (api.py)\<close>

text \<open>The letter a-umlaut, U+00E4.\<close>

definition ae :: char where
  "ae = char_of (228 :: nat)"

definition months :: "(string \<times> int) list" where
  "months =
     [(''Januar'', 1), (''Februar'', 2), ([CHR ''M'', ae, CHR ''r'', CHR ''z''], 3), (''April'', 4),
      (''Mai'', 5), (''Juni'', 6), (''Juli'', 7), (''August'', 8),
      (''September'', 9), (''Oktober'', 10), (''November'', 11), (''Dezember'', 12)]"

definition short_months :: "(string \<times> int) list" where
  "short_months =
     [(''Jan.'', 1), (''Feb.'', 2), ([CHR ''M'', ae, CHR ''r'', CHR ''.''], 3), (''Apr.'', 4),
      (''Mai'', 5), (''Jun.'', 6), (''Jul.'', 7), (''Aug.'', 8),
      (''Sep.'', 9), (''Okt.'', 10), (''Nov.'', 11), (''Dez.'', 12)]"

text \<open>
  \<open>months.get(month_str) or short_months.get(month_str)\<close>; every stored number is
  truthy, so the second table is read only when the first has no entry.
\<close>

definition month_number :: "string \<Rightarrow> int option" where
  "month_number month_str =
     (case dict_get months month_str of
        Some m \<Rightarrow> Some m
      | None \<Rightarrow> dict_get short_months month_str)"

text \<open>
  The second branch of \<open>parse_german_date\<close>, the fully numeric form. A ValueError of
  the date constructor is caught by the function's handler, which returns none.
\<close>

definition parse_numeric_date :: "string \<Rightarrow> date option" where
  "parse_numeric_date date_text =
     (case rsearch re_numeric_date date_text of
        Some (s, ns) \<Rightarrow>
          (let ps = pieces ns s
           in case date_new (py_int (ps ! 4)) (py_int (ps ! 2)) (py_int (ps ! 0)) of
                Inl e \<Rightarrow> None
              | Inr d \<Rightarrow> Some d)
      | None \<Rightarrow> None)"

text \<open>
  \<open>today\<close> is the clock: \<open>date.today()\<close>, and \<open>datetime.now().year\<close> is its year.
  With a known month name the function returns from the first branch, or leaves through
  the handler when a date constructor raises; the numeric form is tried only when the
  first pattern finds nothing or the word after the day is no month name.
\<close>

definition parse_german_date :: "date \<Rightarrow> string \<Rightarrow> date option" where
  "parse_german_date today date_text =
     (case rsearch re_day_month date_text of
        Some (s, ns) \<Rightarrow>
          (let ps = pieces ns s;
               day_n = py_int (ps ! 0);
               month_str = ps ! 3 @ ps ! 4
           in case month_number month_str of
                Some m \<Rightarrow>
                  (let current_year = year today
                   in case date_new current_year m day_n of
                        Inl e \<Rightarrow> None
                      | Inr parsed_date \<Rightarrow>
                          if date_less parsed_date today then
                            (let days_past = date_diff_days today parsed_date
                             in if days_past > 60 then
                                  (case date_new (current_year + 1) m day_n of
                                     Inl e \<Rightarrow> None
                                   | Inr next_year_date \<Rightarrow> Some next_year_date)
                                else Some parsed_date)
                          else Some parsed_date)
              | None \<Rightarrow> parse_numeric_date date_text)
      | None \<Rightarrow> parse_numeric_date date_text)"

text \<open>
  \<open>_calculate_days_remaining\<close> returns the pair (days remaining, ISO date). The ISO
  text of a date is modelled by the date itself: \<open>isoformat\<close> and \<open>fromisoformat\<close>
  are inverse to each other on dates.
\<close>

definition due_date_part :: "string \<Rightarrow> string" where
  "due_date_part due_text =
     (if contains due_text ''bis:'' then py_strip (last (py_split due_text ''bis:''))
      else py_strip due_text)"

definition calculate_days_remaining :: "date \<Rightarrow> string \<Rightarrow> int \<times> date option" where
  "calculate_days_remaining today due_text =
     (case parse_german_date today (due_date_part due_text) of
        Some parsed_date \<Rightarrow> (max 0 (date_diff_days parsed_date today), Some parsed_date)
      | None \<Rightarrow> (0, None))"

section \<open>Renewal rules (renewal\_rules.py)\<close>

text \<open>
  \<open>RenewalRulesManager._rules\<close> maps a library URL to a dictionary with the keys
  \<open>renewal_offset_days\<close> and \<open>last_updated\<close>; a dictionary loaded from storage may lack
  either. \<open>_save_rules\<close> writes the map to disk, swallows every error and leaves the map
  as it is, so the in-memory map is the whole state.
\<close>

record renewal_rule =
  renewal_offset_days :: "int option"
  last_updated :: "date option"

type_synonym rules = "string \<rightharpoonup> renewal_rule"

definition get_renewal_offset_days :: "rules \<Rightarrow> string \<Rightarrow> int option" where
  "get_renewal_offset_days rs library_url =
     (case rs library_url of None \<Rightarrow> None | Some r \<Rightarrow> renewal_offset_days r)"

definition calculate_renewal_date :: "rules \<Rightarrow> string \<Rightarrow> date \<Rightarrow> exn + date option" where
  "calculate_renewal_date rs library_url due_date =
     (case get_renewal_offset_days rs library_url of
        Some offset_days \<Rightarrow>
          (case date_sub_days due_date offset_days of
             Inl e \<Rightarrow> Inl e
           | Inr r \<Rightarrow> Inr (Some r))
      | None \<Rightarrow> Inr None)"

text \<open>\<open>today\<close> is the reading of \<open>date.today()\<close> at the call.\<close>

definition update_rules :: "rules \<Rightarrow> string \<Rightarrow> int \<Rightarrow> date \<Rightarrow> rules" where
  "update_rules rs library_url offset today =
     rs(library_url \<mapsto> \<lparr>renewal_offset_days = Some offset, last_updated = Some today\<rparr>)"

definition calculate_offset_from_dates :: "date \<Rightarrow> date \<Rightarrow> int" where
  "calculate_offset_from_dates due_date renewal_date = date_diff_days due_date renewal_date"

section \<open>Parsed pages\<close>

text \<open>
  A page as BeautifulSoup hands it over: elements with a tag name, attributes and
  children, and text nodes. The attribute \<open>class\<close> is kept apart, as the list of
  tokens the parser makes of it (empty when the attribute is absent); the tests on
  attributes below never ask for it. The document itself is the root element, and
  parsing the response text into this tree is left to the HTML parser.
\<close>

datatype node =
    Element (tag: string) (attrs: "(string \<times> string) list") (classes: "string list")
      (children: "node list")
  | Text string

text \<open>All nodes below a node, in document order.\<close>

fun descendants :: "node \<Rightarrow> node list" where
  "descendants (Text t) = []"
| "descendants (Element tg ats cls ch) = concat (map (\<lambda>c. c # descendants c) ch)"

fun strings :: "node \<Rightarrow> string list" where
  "strings (Text t) = [t]"
| "strings (Element tg ats cls ch) = concat (map strings ch)"

text \<open>\<open>tag.text\<close> and \<open>tag.get_text()\<close>.\<close>

definition get_text :: "node \<Rightarrow> string" where
  "get_text n = concat (strings n)"

text \<open>\<open>tag.get_text(strip=True)\<close>: every string stripped, the empty ones dropped.\<close>

definition get_text_strip :: "node \<Rightarrow> string" where
  "get_text_strip n = concat (filter (\<lambda>t. t \<noteq> []) (map py_strip (strings n)))"

fun is_tag :: "string \<Rightarrow> node \<Rightarrow> bool" where
  "is_tag name (Element tg ats cls ch) = (tg = name)"
| "is_tag name (Text t) = False"

fun has_class :: "string \<Rightarrow> node \<Rightarrow> bool" where
  "has_class c (Element tg ats cls ch) = (c \<in> set cls)"
| "has_class c (Text t) = False"

text \<open>\<open>tag.get(name)\<close> and \<open>tag.get(name, default)\<close>.\<close>

fun attr :: "node \<Rightarrow> string \<Rightarrow> string option" where
  "attr (Element tg ats cls ch) name = map_of ats name"
| "attr (Text t) name = None"

definition attr_or :: "node \<Rightarrow> string \<Rightarrow> string \<Rightarrow> string" where
  "attr_or n name dflt = (case attr n name of Some v \<Rightarrow> v | None \<Rightarrow> dflt)"

definition find_all :: "(node \<Rightarrow> bool) \<Rightarrow> node \<Rightarrow> node list" where
  "find_all p n = filter p (descendants n)"

definition find_first :: "(node \<Rightarrow> bool) \<Rightarrow> node \<Rightarrow> node option" where
  "find_first p n = List.find p (descendants n)"

text \<open>\<open>find('div', class_=c)\<close>.\<close>

definition div_with_class :: "string \<Rightarrow> node \<Rightarrow> bool" where
  "div_with_class c n = (is_tag ''div'' n \<and> has_class c n)"

section \<open>Item records (api.py)\<close>

text \<open>
  The dictionary \<open>_extract_media_info\<close> builds, with the keys added later by the
  page reader (\<open>account\<close>, \<open>owner_name\<close>, \<open>owner_number\<close>) and by the merge
  (\<open>found_on\<close>, empty while the key is absent). \<open>due_date_iso\<close> and
  \<open>renewal_date_iso\<close> hold the date whose ISO text the code stores.
\<close>

record media_info =
  media_id :: string
  title :: string
  author :: string
  due_date :: string
  due_date_iso :: "date option"
  renewable :: bool
  days_remaining :: int
  detail_url :: "string option"
  renewal_date :: string
  renewal_date_iso :: "date option"
  is_renewable_now :: bool
  account :: "string option"
  owner_name :: "string option"
  owner_number :: "string option"
  found_on :: "string list"

text \<open>\<open>strftime('%d.%m.%Y')\<close>, with the year as the C library of Linux prints it.\<close>

definition pad2 :: "int \<Rightarrow> string" where
  "pad2 n = (if n < 10 then CHR ''0'' # str_int n else str_int n)"

definition strftime_dmY :: "date \<Rightarrow> string" where
  "strftime_dmY d = pad2 (day d) @ ''.'' @ pad2 (month d) @ ''.'' @ str_int (year d)"

text \<open>The identifier: the attribute \<open>id\<close> without \<open>media-\<close>, else a data attribute.\<close>

definition extract_media_id :: "node \<Rightarrow> string" where
  "extract_media_id item =
     (let m0 = attr_or item ''id'' [];
          m1 = (if m0 \<noteq> [] \<and> startswith m0 ''media-'' then py_replace m0 ''media-'' [] else m0);
          m2 = (if m1 = [] then attr_or item ''data-id'' [] else m1);
          m3 = (if m2 = [] then attr_or item ''data-media-id'' [] else m2)
      in if m3 = [] then
           (case List.find (\<lambda>(a, v). contains a ''data-id'') (attrs item) of
              Some (a, v) \<Rightarrow> v
            | None \<Rightarrow> m3)
         else m3)"

text \<open>
  Title and detail link. A tag is always truthy, so an \<open>item-title\<close> block is taken
  even when it is empty; without it the title is read from a link of class
  \<open>item-link\<close>, and without that the item is refused.
\<close>

definition extract_title :: "string \<Rightarrow> node \<Rightarrow> (string \<times> string option) option" where
  "extract_title base_url item =
     (case find_first (div_with_class ''item-title'') item of
        Some title_elem \<Rightarrow>
          Some (py_strip (get_text title_elem),
                (case find_first (is_tag ''a'') title_elem of
                   Some title_link \<Rightarrow>
                     (if attr_or title_link ''href'' [] \<noteq> []
                      then Some (rstrip_slash base_url @ attr_or title_link ''href'' [])
                      else None)
                 | None \<Rightarrow> None))
      | None \<Rightarrow>
          (case find_first (\<lambda>n. is_tag ''a'' n \<and> has_class ''item-link'' n) item of
             Some title_link \<Rightarrow>
               Some (py_strip (get_text title_link),
                     (if attr_or title_link ''href'' [] \<noteq> []
                      then Some (rstrip_slash base_url @ attr_or title_link ''href'' [])
                      else None))
           | None \<Rightarrow> None))"

definition with_author :: "node \<Rightarrow> media_info \<Rightarrow> media_info" where
  "with_author item mi =
     (case find_first (div_with_class ''item-author'') item of
        Some author_elem \<Rightarrow> mi\<lparr>author := py_strip (get_text author_elem)\<rparr>
      | None \<Rightarrow> mi)"

text \<open>The due date: the \<open>title\<close> attribute of the status element before its text.\<close>

definition with_due_date :: "date \<Rightarrow> node \<Rightarrow> media_info \<Rightarrow> media_info" where
  "with_due_date today item mi =
     (case find_first (div_with_class ''item-account-status'') item of
        Some status_elem \<Rightarrow>
          (let due_text = attr_or status_elem ''title'' (get_text status_elem);
               r = calculate_days_remaining today due_text
           in mi\<lparr>due_date := py_strip due_text, days_remaining := fst r, due_date_iso := snd r\<rparr>)
      | None \<Rightarrow> mi)"

text \<open>
  The renewal date from the stored rule. An error of the date arithmetic is caught and
  leaves the record as it is.
\<close>

definition with_renewal_from_rules ::
  "string \<Rightarrow> rules option \<Rightarrow> date \<Rightarrow> media_info \<Rightarrow> media_info" where
  "with_renewal_from_rules base_url renewal_rules_manager today mi =
     (case (renewal_rules_manager, due_date_iso mi) of
        (Some rs, Some due) \<Rightarrow>
          (case calculate_renewal_date rs base_url due of
             Inr (Some renewal) \<Rightarrow>
               mi\<lparr>renewal_date := strftime_dmY renewal, renewal_date_iso := Some renewal,
                  is_renewable_now := date_ge today renewal\<rparr>
           | Inr None \<Rightarrow> mi
           | Inl e \<Rightarrow> mi)
      | _ \<Rightarrow> mi)"

text \<open>\<open>['\"](\d+)['\"]\<close>: group 1 is piece 1.\<close>

definition is_quote :: "char \<Rightarrow> bool" where
  "is_quote c = (c = CHR 0x27 \<or> c = CHR 0x22)"

definition re_quoted_number :: "ratom list" where
  "re_quoted_number = [RAtom is_quote 1 (Some 1), RAtom is_digit 1 None, RAtom is_quote 1 (Some 1)]"

text \<open>
  The renew action: an element with \<open>data-action="renew"\<close> inside the \<open>item-actions\<close>
  block. Its presence sets both \<open>renewable\<close> and \<open>is_renewable_now\<close>.
\<close>

definition is_renew_action :: "node \<Rightarrow> bool" where
  "is_renew_action n = (attr n ''data-action'' = Some ''renew'')"

definition with_renew_action :: "node \<Rightarrow> media_info \<Rightarrow> media_info" where
  "with_renew_action item mi =
     (case find_first (div_with_class ''item-actions'') item of
        Some actions \<Rightarrow>
          (case find_first is_renew_action actions of
             Some renew_action \<Rightarrow>
               (let mi1 = mi\<lparr>renewable := True\<rparr>;
                    mi2 =
                      (if media_id mi1 = [] then
                         (if attr_or renew_action ''data-media-id'' [] \<noteq> [] then
                            mi1\<lparr>media_id := attr_or renew_action ''data-media-id'' []\<rparr>
                          else if attr_or renew_action ''onclick'' [] \<noteq> [] then
                            (case rsearch re_quoted_number (attr_or renew_action ''onclick'' []) of
                               Some (s, ns) \<Rightarrow> mi1\<lparr>media_id := pieces ns s ! 1\<rparr>
                             | None \<Rightarrow> mi1)
                          else mi1)
                       else mi1)
                in mi2\<lparr>is_renewable_now := True\<rparr>)
           | None \<Rightarrow> mi)
      | None \<Rightarrow> mi)"

text \<open>
  Without any identifier one is made from title, author and due date. \<open>md5_hex\<close> is
  \<open>hashlib.md5(s.encode()).hexdigest()\<close>, a parameter of the model.
\<close>

definition with_generated_id :: "(string \<Rightarrow> string) \<Rightarrow> media_info \<Rightarrow> media_info" where
  "with_generated_id md5_hex mi =
     (if media_id mi = [] \<and> title mi \<noteq> [] then
        mi\<lparr>media_id := ''gen_'' @ take 8 (md5_hex (title mi @ ''_'' @ author mi @ ''_'' @ due_date mi))\<rparr>
      else mi)"

definition extract_media_info ::
  "string \<Rightarrow> rules option \<Rightarrow> date \<Rightarrow> (string \<Rightarrow> string) \<Rightarrow> node \<Rightarrow> media_info option" where
  "extract_media_info base_url renewal_rules_manager today md5_hex item =
     (case extract_title base_url item of
        None \<Rightarrow> None
      | Some (t, url) \<Rightarrow>
          Some (with_generated_id md5_hex
                 (with_renew_action item
                   (with_renewal_from_rules base_url renewal_rules_manager today
                     (with_due_date today item
                       (with_author item
                         \<lparr>media_id = extract_media_id item, title = t, author = [], due_date = [],
                          due_date_iso = None, renewable = False, days_remaining = 0,
                          detail_url = url, renewal_date = [], renewal_date_iso = None,
                          is_renewable_now = False, account = None, owner_name = None,
                          owner_number = None, found_on = []\<rparr>))))))"

section \<open>Listing pages (api.py)\<close>

text \<open>\<open>Konto\s+Nr\.\s*(\d+)\<close>: eleven atoms, group 1 is piece 10.\<close>

definition re_konto :: "ratom list" where
  "re_konto =
     lit ''Konto'' @ [RAtom is_space 1 None] @ lit ''Nr'' @
     [one CHR ''.'', RAtom is_space 0 None, RAtom is_digit 1 None]"

definition header_account_number :: "node \<Rightarrow> string option" where
  "header_account_number element =
     (case rsearch re_konto (get_text element) of
        Some (s, ns) \<Rightarrow> Some (pieces ns s ! 10)
      | None \<Rightarrow> None)"

text \<open>
  The loop of the family page over \<open>listing.find_all(['h4', 'div'])\<close>.
  \<open>current_account_number\<close> is the number of the latest header that carried one;
  an item block is read only while a number is set.
\<close>

fun family_walk ::
  "(node \<Rightarrow> media_info option) \<Rightarrow> string option \<Rightarrow> node list \<Rightarrow> media_info list" where
  "family_walk ex current_account_number [] = []"
| "family_walk ex current_account_number (element # rest) =
     (if is_tag ''h4'' element \<and> has_class ''reader-content-title'' element then
        (case header_account_number element of
           Some n \<Rightarrow> family_walk ex (Some n) rest
         | None \<Rightarrow> family_walk ex current_account_number rest)
      else if is_tag ''div'' element \<and> has_class ''item'' element then
        (case current_account_number of
           Some n \<Rightarrow>
             (if n \<noteq> [] \<and> \<not> has_class ''item-variant-message'' element then
                (case ex element of
                   Some mi \<Rightarrow>
                     (if due_date mi \<noteq> [] then
                        mi\<lparr>account := Some ''family'', owner_name := Some (''Leser '' @ n),
                           owner_number := Some n\<rparr> # family_walk ex current_account_number rest
                      else family_walk ex current_account_number rest)
                 | None \<Rightarrow> family_walk ex current_account_number rest)
              else family_walk ex current_account_number rest)
         | None \<Rightarrow> family_walk ex current_account_number rest)
      else family_walk ex current_account_number rest)"

text \<open>The loop of the main page over all \<open>div\<close> elements of class \<open>item\<close>.\<close>

fun main_walk :: "(node \<Rightarrow> media_info option) \<Rightarrow> string \<Rightarrow> node list \<Rightarrow> media_info list" where
  "main_walk ex account_type [] = []"
| "main_walk ex account_type (item # rest) =
     (if has_class ''item-variant-message'' item then main_walk ex account_type rest
      else
        (case ex item of
           Some mi \<Rightarrow>
             (if due_date mi \<noteq> [] then mi\<lparr>account := Some account_type\<rparr> # main_walk ex account_type rest
              else main_walk ex account_type rest)
         | None \<Rightarrow> main_walk ex account_type rest))"

text \<open>
  \<open>_get_media_from_page\<close> on a response with the given status and parsed body.
  \<open>ex\<close> is \<open>_extract_media_info\<close> with the client's settings.
\<close>

definition get_media_from_page ::
  "(node \<Rightarrow> media_info option) \<Rightarrow> string \<Rightarrow> nat \<Rightarrow> node \<Rightarrow> media_info list" where
  "get_media_from_page ex account_type status soup =
     (if status \<noteq> 200 then []
      else if account_type = ''family'' then
        (case find_first (div_with_class ''reader-listing-lendings'') soup of
           Some listing \<Rightarrow>
             family_walk ex None (find_all (\<lambda>n. is_tag ''h4'' n \<or> is_tag ''div'' n) listing)
         | None \<Rightarrow> [])
      else main_walk ex account_type (find_all (div_with_class ''item'') soup))"

section \<open>Detail pages (api.py)\<close>

text \<open>The three keys \<open>_fetch_media_details\<close> returns.\<close>

record details =
  d_renewal_date :: string
  d_renewal_date_iso :: "date option"
  d_is_renewable_now :: bool

definition no_details :: details where
  "no_details = \<lparr>d_renewal_date = [], d_renewal_date_iso = None, d_is_renewable_now = False\<rparr>"

text \<open>
  \<open>ab dem (\d+\.\s*\w+\.?(?:\s*\d{4})?)\<close>. The optional year is the last part of
  the pattern, so a match of the part before it is never undone: the matcher runs on
  that part (twelve atoms, the group starting at piece 7) and then tries the year on
  the rest.
\<close>

definition re_ab_dem :: "ratom list" where
  "re_ab_dem =
     lit ''ab dem '' @
     [RAtom is_digit 1 None, one CHR ''.'', RAtom is_space 0 None, RAtom is_word 1 None,
      RAtom (\<lambda>x. x = CHR ''.'') 0 (Some 1)]"

definition re_opt_year :: "ratom list" where
  "re_opt_year = [RAtom is_space 0 None, RAtom is_digit 4 (Some 4)]"

definition renewal_text_date :: "string \<Rightarrow> string option" where
  "renewal_text_date t =
     (case rsearch re_ab_dem t of
        Some (s, ns) \<Rightarrow>
          (let rest = drop (sum_list ns) s
           in Some (concat (drop 7 (pieces ns s)) @
                    (case rmatch re_opt_year rest of
                       Some ms \<Rightarrow> take (sum_list ms) rest
                     | None \<Rightarrow> [])))
      | None \<Rightarrow> None)"

text \<open>The phrase \<open>online verl\"angert werden\<close>, with its umlaut as U+00E4.\<close>

definition online_verlaengert_werden :: string where
  "online_verlaengert_werden = ''online verl'' @ [ae] @ ''ngert werden''"

fun text_of :: "node \<Rightarrow> string option" where
  "text_of (Text t) = Some t"
| "text_of (Element tg ats cls ch) = None"

definition is_renewal_text :: "node \<Rightarrow> bool" where
  "is_renewal_text n =
     (case text_of n of
        Some t \<Rightarrow> t \<noteq> [] \<and> contains t ''kann ab dem'' \<and> contains t online_verlaengert_werden
      | None \<Rightarrow> False)"

text \<open>
  \<open>_fetch_media_details\<close> on the outcome of the request: an exception of the client
  (caught inside the function) or a response with status and parsed body.
\<close>

definition fetch_media_details :: "date \<Rightarrow> exn + nat \<times> node \<Rightarrow> details" where
  "fetch_media_details today response =
     (case response of
        Inl e \<Rightarrow> no_details
      | Inr (status, soup) \<Rightarrow>
          if status \<noteq> 200 then no_details
          else
            (case find_first is_renewal_text soup of
               Some (Text renewal_text) \<Rightarrow>
                 (case renewal_text_date renewal_text of
                    Some renewal_date_text \<Rightarrow>
                      (case parse_german_date today renewal_date_text of
                         Some parsed_date \<Rightarrow>
                           \<lparr>d_renewal_date = renewal_date_text,
                            d_renewal_date_iso = Some parsed_date,
                            d_is_renewable_now = date_ge today parsed_date\<rparr>
                       | None \<Rightarrow> no_details\<lparr>d_renewal_date := renewal_date_text\<rparr>)
                  | None \<Rightarrow> no_details\<lparr>d_renewal_date := py_strip renewal_text\<rparr>)
             | _ \<Rightarrow> no_details))"

section \<open>One fetch cycle of the client (api.py)\<close>

text \<open>
  The state of a \<open>BibKatAPI\<close> object as far as the operations below read or write it.
  A \<open>datetime\<close> is its number of microseconds on the clock's axis.
\<close>

record api =
  base_url :: string
  use_browser :: bool
  renewal_rules_manager :: "rules option"
  last_full_detail_fetch :: "int option"
  last_media_list :: "media_info list"

definition DETAIL_FETCH_INTERVAL :: int where
  "DETAIL_FETCH_INTERVAL = 24 * 3600 * 1000000"

text \<open>
  The merge of the two listings. \<open>all_media\<close> is the list of records;
  \<open>media_by_id\<close> refers to a record of that list by its position, as the dictionary
  of the code refers to the very object the list holds.
\<close>

record merge_state =
  all_media :: "media_info list"
  media_by_id :: "string \<rightharpoonup> nat"

definition add_main :: "merge_state \<Rightarrow> media_info \<Rightarrow> merge_state" where
  "add_main st media =
     (if media_id media \<noteq> [] then
        \<lparr>all_media = all_media st @ [media\<lparr>found_on := [''main'']\<rparr>],
         media_by_id = (media_by_id st)(media_id media \<mapsto> length (all_media st))\<rparr>
      else st)"

definition add_family :: "merge_state \<Rightarrow> media_info \<Rightarrow> merge_state" where
  "add_family st media =
     (if media_id media \<noteq> [] then
        (case media_by_id st (media_id media) of
           Some i \<Rightarrow>
             st\<lparr>all_media := (all_media st)
                  [i := (all_media st ! i)\<lparr>found_on := found_on (all_media st ! i) @ [''family'']\<rparr>]\<rparr>
         | None \<Rightarrow>
             \<lparr>all_media = all_media st @ [media\<lparr>found_on := [''family'']\<rparr>],
              media_by_id = (media_by_id st)(media_id media \<mapsto> length (all_media st))\<rparr>)
      else st)"

definition merge_listings :: "media_info list \<Rightarrow> media_info list \<Rightarrow> merge_state" where
  "merge_listings main_media family_media =
     foldl add_family (foldl add_main \<lparr>all_media = [], media_by_id = Map.empty\<rparr> main_media)
       family_media"

text \<open>A page request that raises is logged and contributes nothing.\<close>

definition page_media ::
  "(node \<Rightarrow> media_info option) \<Rightarrow> string \<Rightarrow> exn + nat \<times> node \<Rightarrow> media_info list" where
  "page_media ex account_type response =
     (case response of
        Inl e \<Rightarrow> []
      | Inr (status, soup) \<Rightarrow> get_media_from_page ex account_type status soup)"

text \<open>The throttle of the detail requests.\<close>

definition should_fetch_all_details :: "int \<Rightarrow> int option \<Rightarrow> bool" where
  "should_fetch_all_details now last_fetch =
     (case last_fetch of None \<Rightarrow> True | Some t \<Rightarrow> now - t \<ge> DETAIL_FETCH_INTERVAL)"

definition wants_details :: "media_info \<Rightarrow> bool" where
  "wants_details media =
     (renewable media \<and> (case detail_url media of Some u \<Rightarrow> u \<noteq> [] | None \<Rightarrow> False))"

text \<open>\<open>media.update(details)\<close>.\<close>

definition update_with_details :: "media_info \<Rightarrow> details \<Rightarrow> media_info" where
  "update_with_details media d =
     media\<lparr>renewal_date := d_renewal_date d, renewal_date_iso := d_renewal_date_iso d,
           is_renewable_now := d_is_renewable_now d\<rparr>"

definition fetch_details ::
  "date \<Rightarrow> (string \<Rightarrow> exn + nat \<times> node) \<Rightarrow> media_info \<Rightarrow> media_info" where
  "fetch_details today detail_page media =
     (if wants_details media then
        update_with_details media
          (fetch_media_details today (detail_page (case detail_url media of Some u \<Rightarrow> u | None \<Rightarrow> [])))
      else media)"

text \<open>The detail pages a cycle asks for, in order.\<close>

definition detail_requests :: "bool \<Rightarrow> media_info list \<Rightarrow> string list" where
  "detail_requests fetch_all ms =
     (if fetch_all
      then map (\<lambda>m. case detail_url m of Some u \<Rightarrow> u | None \<Rightarrow> []) (filter wants_details ms)
      else [])"

text \<open>
  \<open>get_borrowed_media\<close>. The surroundings of one call are parameters: the hash, the
  clock (\<open>date.today()\<close>, and the two readings of \<open>datetime.now()\<close>, one compared
  with the stamp and one stored), whether the login holds, and what the requests for
  the main page, the family page and each detail page give. The result is the list
  returned, the detail pages requested, and the client's new state.
\<close>

definition merged_media ::
  "(string \<Rightarrow> string) \<Rightarrow> date \<Rightarrow> exn + nat \<times> node \<Rightarrow> exn + nat \<times> node \<Rightarrow> api \<Rightarrow> media_info list" where
  "merged_media md5_hex today main_page family_page self =
     (let ex = extract_media_info (base_url self) (renewal_rules_manager self) today md5_hex
      in all_media (merge_listings (page_media ex ''main'' main_page)
                                   (page_media ex ''family'' family_page)))"

definition get_borrowed_media ::
  "(string \<Rightarrow> string) \<Rightarrow> date \<Rightarrow> int \<Rightarrow> int \<Rightarrow> bool \<Rightarrow> exn + nat \<times> node \<Rightarrow> exn + nat \<times> node \<Rightarrow>
   (string \<Rightarrow> exn + nat \<times> node) \<Rightarrow> api \<Rightarrow> media_info list \<times> string list \<times> api" where
  "get_borrowed_media md5_hex today now_check now_store logged_in main_page family_page
     detail_page self =
     (if \<not> logged_in then ([], [], self)
      else
        (let merged = merged_media md5_hex today main_page family_page self;
             fetch_all = should_fetch_all_details now_check (last_full_detail_fetch self);
             stamp = (if fetch_all then Some now_store else last_full_detail_fetch self);
             result = (if fetch_all then map (fetch_details today detail_page) merged else merged)
         in (result, detail_requests fetch_all merged,
             self\<lparr>last_full_detail_fetch := stamp, last_media_list := result\<rparr>)))"

section \<open>JSON values and HTTP responses\<close>

text \<open>
  The renewal endpoint answers in JSON. A decoded body is any JSON value (numbers are
  cut to the integers); reading it the way the code does raises where Python raises.
\<close>

datatype json =
    JNull
  | JBool bool
  | JNum int
  | JStr string
  | JArr "json list"
  | JObj "(string \<times> json) list"

fun truthy :: "json \<Rightarrow> bool" where
  "truthy JNull = False"
| "truthy (JBool b) = b"
| "truthy (JNum n) = (n \<noteq> 0)"
| "truthy (JStr s) = (s \<noteq> [])"
| "truthy (JArr xs) = (xs \<noteq> [])"
| "truthy (JObj kvs) = (kvs \<noteq> [])"

fun type_name :: "json \<Rightarrow> string" where
  "type_name JNull = ''NoneType''"
| "type_name (JBool b) = ''bool''"
| "type_name (JNum n) = ''int''"
| "type_name (JStr s) = ''str''"
| "type_name (JArr xs) = ''list''"
| "type_name (JObj kvs) = ''dict''"

text \<open>\<open>v.get(key, default)\<close>: only a dictionary has the method.\<close>

fun py_get :: "json \<Rightarrow> string \<Rightarrow> json \<Rightarrow> exn + json" where
  "py_get (JObj kvs) k dflt = Inr (case map_of kvs k of Some v \<Rightarrow> v | None \<Rightarrow> dflt)"
| "py_get v k dflt =
     Inl (AttributeError ([CHR 0x27] @ type_name v @ [CHR 0x27] @ '' object has no attribute ''
                          @ [CHR 0x27] @ ''get'' @ [CHR 0x27]))"

text \<open>\<open>for x in v\<close>: the elements of a list, the characters of a text, the keys of a dictionary.\<close>

fun py_iter :: "json \<Rightarrow> exn + json list" where
  "py_iter (JArr xs) = Inr xs"
| "py_iter (JStr s) = Inr (map (\<lambda>c. JStr [c]) s)"
| "py_iter (JObj kvs) = Inr (map (\<lambda>kv. JStr (fst kv)) kvs)"
| "py_iter v = Inl (TypeError ([CHR 0x27] @ type_name v @ [CHR 0x27] @ '' object is not iterable''))"

text \<open>
  A response of the HTTP client: the status, and what \<open>response.text()\<close> and
  \<open>response.json()\<close> give, each of which may raise.
\<close>

record http_response =
  status :: nat
  body_text :: "exn + string"
  body_json :: "exn + json"

section \<open>Renewing an item (api.py)\<close>

text \<open>
  The dictionary the renewal operations return. \<open>message\<close> is a JSON value because
  the refusal text of the endpoint is passed on as it was decoded.
\<close>

record renew_result =
  success :: bool
  message :: json
  result_renewal_date :: "string option"
  result_renewal_date_iso :: "date option"
  source :: "string option"

definition failed :: "string \<Rightarrow> renew_result" where
  "failed msg = \<lparr>success = False, message = JStr msg, result_renewal_date = None,
     result_renewal_date_iso = None, source = None\<rparr>"

definition Verlaengerung :: string where
  "Verlaengerung = ''Verl'' @ [ae] @ ''ngerung''"

definition verlaengert :: string where
  "verlaengert = ''verl'' @ [ae] @ ''ngert''"

text \<open>The loop that looks for an action with function \<open>renew\<close> and method \<open>POST\<close>.\<close>

fun find_renew_action :: "json list \<Rightarrow> exn + json option" where
  "find_renew_action [] = Inr None"
| "find_renew_action (action # rest) =
     (case py_get action ''function'' JNull of
        Inl e \<Rightarrow> Inl e
      | Inr f \<Rightarrow>
          if f = JStr ''renew'' then
            (case py_get action ''method'' JNull of
               Inl e \<Rightarrow> Inl e
             | Inr m \<Rightarrow> if m = JStr ''POST'' then Inr (Some action) else find_renew_action rest)
          else find_renew_action rest)"

text \<open>Step 2 of the protocol, on the outcome of the POST request.\<close>

definition renew_post :: "exn + http_response \<Rightarrow> exn + renew_result" where
  "renew_post post_outcome =
     (case post_outcome of
        Inl e \<Rightarrow> Inl e
      | Inr response \<Rightarrow>
          if status response = 200 then
            (case body_json response of
               Inl e \<Rightarrow> Inl e
             | Inr post_result \<Rightarrow>
                 (case py_get post_result ''meta'' (JObj []) of
                    Inl e \<Rightarrow> Inl e
                  | Inr meta \<Rightarrow>
                      (case py_get meta ''success'' JNull of
                         Inl e \<Rightarrow> Inl e
                       | Inr ok \<Rightarrow>
                           if truthy ok then
                             Inr ((failed (''Medium erfolgreich '' @ verlaengert))\<lparr>success := True\<rparr>)
                           else
                             (case py_get post_result ''data'' (JObj []) of
                                Inl e \<Rightarrow> Inl e
                              | Inr d \<Rightarrow>
                                  (case py_get d ''message'' (JStr (Verlaengerung @ '' fehlgeschlagen'')) of
                                     Inl e \<Rightarrow> Inl e
                                   | Inr msg \<Rightarrow> Inr ((failed [])\<lparr>message := msg\<rparr>))))))
          else
            Inr (failed (Verlaengerung @ '' fehlgeschlagen (Status '' @ str_int (int (status response))
                         @ '')'')))"

text \<open>
  The body of the \<open>try\<close> block of \<open>_renew_single_media\<close>, on the outcomes of the GET
  and the POST request. An exception leaves the block as \<open>Inl\<close>.
\<close>

definition renew_single_try :: "exn + http_response \<Rightarrow> exn + http_response \<Rightarrow> exn + renew_result" where
  "renew_single_try get_outcome post_outcome =
     (case get_outcome of
        Inl e \<Rightarrow> Inl e
      | Inr response \<Rightarrow>
          if status response \<noteq> 200 then
            (case body_text response of
               Inl e \<Rightarrow> Inl e
             | Inr t \<Rightarrow> Inr (failed (''Fehler beim Abrufen des '' @ Verlaengerung @ ''sdialogs'')))
          else
            (case body_json response of
               Inl e \<Rightarrow> Inl e
             | Inr data \<Rightarrow>
                 (case py_get data ''meta'' (JObj []) of
                    Inl e \<Rightarrow> Inl e
                  | Inr meta \<Rightarrow>
                      (case py_get meta ''success'' JNull of
                         Inl e \<Rightarrow> Inl e
                       | Inr ok \<Rightarrow>
                           if \<not> truthy ok then Inr (failed (Verlaengerung @ '' fehlgeschlagen''))
                           else
                             (case py_get data ''data'' (JObj []) of
                                Inl e \<Rightarrow> Inl e
                              | Inr d \<Rightarrow>
                                  (case py_get d ''actions'' (JArr []) of
                                     Inl e \<Rightarrow> Inl e
                                   | Inr actions \<Rightarrow>
                                       (case py_iter actions of
                                          Inl e \<Rightarrow> Inl e
                                        | Inr xs \<Rightarrow>
                                            (case find_renew_action xs of
                                               Inl e \<Rightarrow> Inl e
                                             | Inr None \<Rightarrow>
                                                 Inr (failed (''Keine '' @ Verlaengerung @ ''saktion gefunden''))
                                             | Inr (Some renew_action) \<Rightarrow> renew_post post_outcome))))))))"

text \<open>\<open>_renew_single_media\<close>: the handler turns every exception of the block into a result.\<close>

definition renew_single_media :: "exn + http_response \<Rightarrow> exn + http_response \<Rightarrow> exn + renew_result" where
  "renew_single_media get_outcome post_outcome =
     (case renew_single_try get_outcome post_outcome of
        Inl e \<Rightarrow> Inr (failed (''Fehler bei der '' @ Verlaengerung @ '': '' @ exn_str e))
      | Inr r \<Rightarrow> Inr r)"

text \<open>
  The browser fallback as \<open>_extract_renewal_date\<close> meets it: the import of the
  service may fail, the service may report that it is unavailable, the extraction may
  raise, or it returns its dictionary.
\<close>

record browser_result =
  b_success :: bool
  b_renewal_date :: "string option"
  b_renewal_date_iso :: "date option"
  b_renewal_offset_days :: "int option"

datatype browser_outcome =
    ImportFails exn
  | Unavailable
  | ExtractRaises exn
  | Extracted browser_result

text \<open>
  The dictionary \<open>_extract_renewal_date\<close> returns: \<open>determined\<close> is its key
  \<open>success\<close>, which says that a date was determined, not that anything was renewed.
\<close>

record date_result =
  determined :: bool
  dr_message :: "string option"
  dr_renewal_date :: "string option"
  dr_renewal_date_iso :: "date option"
  dr_source :: "string option"

definition from_date :: "string \<Rightarrow> date \<Rightarrow> date_result" where
  "from_date src d = \<lparr>determined = True, dr_message = None, dr_renewal_date = Some (strftime_dmY d),
     dr_renewal_date_iso = Some d, dr_source = Some src\<rparr>"

definition from_browser :: "browser_result \<Rightarrow> date_result" where
  "from_browser br = \<lparr>determined = True, dr_message = None, dr_renewal_date = b_renewal_date br,
     dr_renewal_date_iso = b_renewal_date_iso br, dr_source = Some ''browser''\<rparr>"

text \<open>
  Method 1. The result is the dictionary to return, if any, and the client with its
  rules manager, which learns the offset the browser reports. Without a rules manager
  that update raises AttributeError inside the \<open>try\<close>, and the method is given up.
\<close>

definition browser_method :: "date \<Rightarrow> browser_outcome \<Rightarrow> api \<Rightarrow> date_result option \<times> api" where
  "browser_method today browser self =
     (case browser of
        Extracted br \<Rightarrow>
          if b_success br \<and> b_renewal_date_iso br \<noteq> None then
            (case b_renewal_offset_days br of
               Some off \<Rightarrow>
                 (case renewal_rules_manager self of
                    Some rs \<Rightarrow>
                      (Some (from_browser br),
                       self\<lparr>renewal_rules_manager := Some (update_rules rs (base_url self) off today)\<rparr>)
                  | None \<Rightarrow> (None, self))
             | None \<Rightarrow>
                 (Some (from_browser br), self))
          else (None, self)
      | _ \<Rightarrow> (None, self))"

text \<open>
  Method 2: the first record of the last list with this identifier and a due date for
  which the stored rule gives a date. An error of the date arithmetic is not caught here.
\<close>

fun rules_method :: "rules \<Rightarrow> string \<Rightarrow> string \<Rightarrow> media_info list \<Rightarrow> exn + date_result option" where
  "rules_method rs library_url mid [] = Inr None"
| "rules_method rs library_url mid (media # rest) =
     (if media_id media = mid \<and> due_date_iso media \<noteq> None then
        (case calculate_renewal_date rs library_url (the (due_date_iso media)) of
           Inl e \<Rightarrow> Inl e
         | Inr (Some renewal) \<Rightarrow> Inr (Some (from_date ''rules'' renewal))
         | Inr None \<Rightarrow> rules_method rs library_url mid rest)
      else rules_method rs library_url mid rest)"

text \<open>Method 3: six days before the due date of the first such record.\<close>

fun fallback_method :: "string \<Rightarrow> media_info list \<Rightarrow> exn + date_result option" where
  "fallback_method mid [] = Inr None"
| "fallback_method mid (media # rest) =
     (if media_id media = mid \<and> due_date_iso media \<noteq> None then
        (case date_sub_days (the (due_date_iso media)) 6 of
           Inl e \<Rightarrow> Inl e
         | Inr renewal \<Rightarrow> Inr (Some (from_date ''fallback'' renewal)))
      else fallback_method mid rest)"

definition Verlaengerungsdatum_unbekannt :: string where
  "Verlaengerungsdatum_unbekannt = Verlaengerung @ ''sdatum konnte nicht ermittelt werden''"

text \<open>\<open>_extract_renewal_date\<close>: the three methods in order.\<close>

definition extract_renewal_date ::
  "date \<Rightarrow> browser_outcome \<Rightarrow> string \<Rightarrow> api \<Rightarrow> (exn + date_result) \<times> api" where
  "extract_renewal_date today browser mid self =
     (case (if use_browser self then browser_method today browser self else (None, self)) of
        (Some r, self1) \<Rightarrow> (Inr r, self1)
      | (None, self1) \<Rightarrow>
          (case (case renewal_rules_manager self1 of
                   Some rs \<Rightarrow> rules_method rs (base_url self1) mid (last_media_list self1)
                 | None \<Rightarrow> Inr None) of
             Inl e \<Rightarrow> (Inl e, self1)
           | Inr (Some r) \<Rightarrow> (Inr r, self1)
           | Inr None \<Rightarrow>
               (case fallback_method mid (last_media_list self1) of
                  Inl e \<Rightarrow> (Inl e, self1)
                | Inr (Some r) \<Rightarrow> (Inr r, self1)
                | Inr None \<Rightarrow>
                    (Inr \<lparr>determined = False, dr_message = Some Verlaengerungsdatum_unbekannt,
                          dr_renewal_date = None, dr_renewal_date_iso = None, dr_source = None\<rparr>,
                     self1))))"

text \<open>
  \<open>renew_media\<close>, the public operation: the record is looked up in the list of the
  last fetch; an item that is renewable now is renewed, for any other the date from
  which it can be renewed is worked out and reported in a result that is no success.
\<close>

definition not_yet_renewable :: "date_result \<Rightarrow> renew_result" where
  "not_yet_renewable dr =
     \<lparr>success = False,
      message = JStr (''Medium kann erst ab dem '' @
                      (case dr_renewal_date dr of Some d \<Rightarrow> d | None \<Rightarrow> ''None'') @
                      '' '' @ verlaengert @ '' werden''),
      result_renewal_date = dr_renewal_date dr,
      result_renewal_date_iso = dr_renewal_date_iso dr,
      source = Some (case dr_source dr of Some src \<Rightarrow> src | None \<Rightarrow> ''unknown'')\<rparr>"

definition renew_media ::
  "date \<Rightarrow> browser_outcome \<Rightarrow> exn + http_response \<Rightarrow> exn + http_response \<Rightarrow> string \<Rightarrow> api \<Rightarrow>
   (exn + renew_result) \<times> api" where
  "renew_media today browser get_outcome post_outcome mid self =
     (case List.find (\<lambda>media. media_id media = mid) (last_media_list self) of
        None \<Rightarrow> (Inr (failed ''Medium nicht gefunden''), self)
      | Some found \<Rightarrow>
          if is_renewable_now found then (renew_single_media get_outcome post_outcome, self)
          else
            (case extract_renewal_date today browser mid self of
               (Inl e, self1) \<Rightarrow> (Inl e, self1)
             | (Inr dr, self1) \<Rightarrow>
                 if determined dr then (Inr (not_yet_renewable dr), self1)
                 else
                   (Inr (failed (case dr_message dr of
                                   Some m \<Rightarrow> m
                                 | None \<Rightarrow> Verlaengerungsdatum_unbekannt)),
                    self1)))"

section \<open>The renewal command of the coordinator (coordinator.py)\<close>







section \<open>Logging in (auth\_helper.py)\<close>

text \<open>
  A page request of the login gives an exception of the client or a response: status,
  body text, and the body as the HTML parser reads it.
\<close>

record page_response =
  p_status :: nat
  p_text :: string
  p_soup :: node

definition has_attr :: "string \<Rightarrow> string \<Rightarrow> node \<Rightarrow> bool" where
  "has_attr name v n = (attr n name = Some v)"

text \<open>The anti-forgery token: a hidden form field, else a meta tag.\<close>

definition csrf_token_of :: "node \<Rightarrow> string option" where
  "csrf_token_of soup =
     (let from_input =
            (case find_first (\<lambda>n. is_tag ''input'' n \<and> has_attr ''name'' ''csrfmiddlewaretoken'' n) soup of
               Some csrf_input \<Rightarrow> attr csrf_input ''value''
             | None \<Rightarrow> None)
      in if from_input \<noteq> None \<and> from_input \<noteq> Some [] then from_input
         else
           (case find_first (\<lambda>n. is_tag ''meta'' n \<and> has_attr ''name'' ''csrf-token'' n) soup of
              Some csrf_meta \<Rightarrow> attr csrf_meta ''content''
            | None \<Rightarrow> from_input))"

text \<open>The three kinds of success indicator of the response to the login.\<close>

definition logout_marker :: "string \<Rightarrow> bool" where
  "logout_marker t =
     (contains (py_lower t) ''logout'' \<or> contains (py_lower t) ''abmelden'' \<or> contains t ''reader-view'')"

definition account_page_marker :: "node \<Rightarrow> bool" where
  "account_page_marker soup =
     (find_first (div_with_class ''reader-account'') soup \<noteq> None
      \<or> find_first (div_with_class ''account-info'') soup \<noteq> None)"

definition reader_content_marker :: "node \<Rightarrow> bool" where
  "reader_content_marker soup =
     (find_first (div_with_class ''reader-content'') soup \<noteq> None
      \<or> find_first (div_with_class ''reader-listing'') soup \<noteq> None)"

definition found_indicator :: "string \<Rightarrow> node \<Rightarrow> bool" where
  "found_indicator t soup =
     (if logout_marker t then True
      else if account_page_marker soup then True
      else if reader_content_marker soup then True
      else False)"

text \<open>The known error containers, and the form test of the diagnostics.\<close>

definition error_container :: "node \<Rightarrow> node option" where
  "error_container soup =
     (case find_first (\<lambda>n. is_tag ''div'' n \<and>
              (has_class ''alert-danger'' n \<or> has_class ''error-message'' n \<or> has_class ''login-error'' n))
             soup of
        Some e \<Rightarrow> Some e
      | None \<Rightarrow> find_first (div_with_class ''alert'') soup)"

definition login_form_present :: "node \<Rightarrow> bool" where
  "login_form_present soup =
     (find_first (\<lambda>n. is_tag ''form'' n \<and> has_attr ''action'' ''/reader/'' n) soup \<noteq> None
      \<or> find_first (\<lambda>n. is_tag ''input'' n \<and> has_attr ''name'' ''username'' n) soup \<noteq> None)"

definition login_error_message :: "node \<Rightarrow> string" where
  "login_error_message soup =
     (let error_msg = (case error_container soup of
                         Some e \<Rightarrow> get_text_strip e
                       | None \<Rightarrow> [])
      in if error_msg = [] then
           (if login_form_present soup then ''Still on login page - credentials may be incorrect''
            else ''Login response unclear - no success indicators found'')
         else error_msg)"

text \<open>The check of the response to the POST of the credentials.\<close>

definition check_login_response :: "page_response \<Rightarrow> exn + unit" where
  "check_login_response resp =
     (if p_status resp \<noteq> 200 then
        Inl (ConfigEntryAuthFailed (''Login failed with status '' @ str_int (int (p_status resp))))
      else if \<not> found_indicator (p_text resp) (p_soup resp) then
        Inl (ConfigEntryAuthFailed (''Login failed: '' @ login_error_message (p_soup resp)))
      else Inr ())"

text \<open>
  \<open>_create_authenticated_session\<close> on the outcomes of the two requests. An auth
  error is raised again as it is; any other exception becomes an auth error that
  carries its text. \<open>Inr ()\<close> stands for the session returned.
\<close>

definition create_authenticated_session ::
  "exn + page_response \<Rightarrow> exn + page_response \<Rightarrow> exn + unit" where
  "create_authenticated_session login_page login_post =
     (case login_page of
        Inl e \<Rightarrow> Inl (ConfigEntryAuthFailed (''Authentication failed: '' @ exn_str e))
      | Inr page \<Rightarrow>
          if p_status page \<noteq> 200 then
            Inl (ConfigEntryAuthFailed (''Failed to reach login page: '' @ str_int (int (p_status page))))
          else
            (case csrf_token_of (p_soup page) of
               None \<Rightarrow> Inl (ConfigEntryAuthFailed ''Could not find CSRF token'')
             | Some csrf_token \<Rightarrow>
                 if csrf_token = [] then Inl (ConfigEntryAuthFailed ''Could not find CSRF token'')
                 else
                   (case login_post of
                      Inl e \<Rightarrow> Inl (ConfigEntryAuthFailed (''Authentication failed: '' @ exn_str e))
                    | Inr resp \<Rightarrow> check_login_response resp)))"

section \<open>The family page, in the words of the specification\<close>

text \<open>
  The functions of this section are not taken from the code. They say what the
  specification asks of the family page: the account of an item block is the number
  of the latest header before it that carries one, and a block contributes a record
  only under an account and with a due date.
\<close>

definition is_header :: "node \<Rightarrow> bool" where
  "is_header e = (is_tag ''h4'' e \<and> has_class ''reader-content-title'' e)"

definition is_item_block :: "node \<Rightarrow> bool" where
  "is_item_block e = (is_tag ''div'' e \<and> has_class ''item'' e)"

fun most_recent_account :: "string option \<Rightarrow> node list \<Rightarrow> string option" where
  "most_recent_account cur [] = cur"
| "most_recent_account cur (e # es) =
     most_recent_account
       (if is_header e then (case header_account_number e of Some n \<Rightarrow> Some n | None \<Rightarrow> cur)
        else cur) es"

definition item_contribution ::
  "(node \<Rightarrow> media_info option) \<Rightarrow> string option \<Rightarrow> node \<Rightarrow> media_info list" where
  "item_contribution ex acct e =
     (case (acct, ex e) of
        (Some n, Some mi) \<Rightarrow>
          (if n \<noteq> [] \<and> \<not> has_class ''item-variant-message'' e \<and> due_date mi \<noteq> [] then
             [mi\<lparr>account := Some ''family'', owner_name := Some (''Leser '' @ n),
                 owner_number := Some n\<rparr>]
           else [])
      | _ \<Rightarrow> [])"


section \<open>A sample family page\<close>

text \<open>
  Two account sections: the first holds a loan with a due date, the second an item
  without one.
\<close>

definition sample_today :: date where "sample_today = \<lparr>year = 2025, month = 7, day = 1\<rparr>"
definition sample_header_689 :: node where "sample_header_689 = Element ''h4'' [] [''reader-content-title''] [Text ''Konto Nr. 689'']"
definition sample_header_700 :: node where "sample_header_700 = Element ''h4'' [] [''reader-content-title''] [Text ''Konto Nr. 700'']"
definition sample_title_1 :: node where "sample_title_1 = Element ''div'' [] [''item-title''] [Element ''a'' [(''href'', ''/m/1'')] [] [Text ''Buch A'']]"
definition sample_status_1 :: node where "sample_status_1 = Element ''div'' [(''title'', ''bis: Sonntag, 13. Juli'')] [''item-account-status''] [Text ''13. Jul.'']"
definition sample_item_1 :: node where "sample_item_1 = Element ''div'' [(''id'', ''media-1'')] [''item''] [sample_title_1, sample_status_1]"
definition sample_title_2 :: node where "sample_title_2 = Element ''div'' [] [''item-title''] [Element ''a'' [(''href'', ''/m/2'')] [] [Text ''Buch B'']]"
definition sample_item_2 :: node where "sample_item_2 = Element ''div'' [(''id'', ''media-2'')] [''item''] [sample_title_2]"
definition sample_family_page :: node where
  "sample_family_page = Element ''[document]'' [] [] [Element ''div'' [] [''reader-listing-lendings''] [sample_header_689, sample_item_1, sample_header_700, sample_item_2]]"
definition sample_extract :: "node \<Rightarrow> media_info option" where
  "sample_extract = extract_media_info ''https://www.bibkat.de/boehl/'' None sample_today (\<lambda>s. [])"
definition sample_record_1 :: media_info where
  "sample_record_1 = \<lparr>media_id = ''1'', title = ''Buch A'', author = [], due_date = ''bis: Sonntag, 13. Juli'',
     due_date_iso = Some \<lparr>year = 2025, month = 7, day = 13\<rparr>, renewable = False, days_remaining = 12,
     detail_url = Some ''https://www.bibkat.de/boehl/m/1'', renewal_date = [], renewal_date_iso = None,
     is_renewable_now = False, account = None, owner_name = None, owner_number = None, found_on = []\<rparr>"


section \<open>Vocabulary of the statements\<close>

text \<open>
  \<open>has_renew_action\<close> says that the item block shows the renew action, and
  \<open>rule_says_renewable_now\<close> that the stored rule of the library places the renewal
  date of a due date on or before today. \<open>hour\<close> is an hour of the clock.
\<close>

definition has_renew_action :: "node \<Rightarrow> bool" where
  "has_renew_action item =
     (case find_first (div_with_class ''item-actions'') item of
        Some actions \<Rightarrow> find_first is_renew_action actions \<noteq> None
      | None \<Rightarrow> False)"

definition rule_says_renewable_now :: "string \<Rightarrow> rules option \<Rightarrow> date \<Rightarrow> date option \<Rightarrow> bool" where
  "rule_says_renewable_now base rm td due_iso =
     (case (rm, due_iso) of
        (Some rs, Some due) \<Rightarrow>
          (case calculate_renewal_date rs base due of
             Inr (Some renewal) \<Rightarrow> date_ge td renewal
           | _ \<Rightarrow> False)
      | _ \<Rightarrow> False)"




text \<open>
  \<open>no_rule_for\<close>: the client has no rules manager, or the manager has no offset for
  the client's library. \<open>no_browser\<close>: the browser fallback is switched off, or its
  service cannot be imported or reports itself unavailable. \<open>account_matches\<close>: the
  command names no account, or the owning one.
\<close>

definition no_rule_for :: "api \<Rightarrow> bool" where
  "no_rule_for self =
     (case renewal_rules_manager self of
        None \<Rightarrow> True
      | Some rs \<Rightarrow> get_renewal_offset_days rs (base_url self) = None)"

definition no_browser :: "api \<Rightarrow> browser_outcome \<Rightarrow> bool" where
  "no_browser self browser =
     (\<not> use_browser self \<or> browser = Unavailable \<or> (\<exists>e. browser = ImportFails e))"




text \<open>
  \<open>name_ok\<close>: a month name as the first pattern can take it, word characters with
  at most one final full stop.
\<close>

definition name_ok :: "string \<Rightarrow> bool" where
  "name_ok k =
     (let w = (if last k = CHR ''.'' then butlast k else k)
      in k \<noteq> [] \<and> w \<noteq> [] \<and> list_all is_word w)"


text \<open>
  \<open>month_day_ok y r md\<close> says that the month and the day \<open>md\<close> name the day
  number \<open>r\<close> (counted from 0) of the year \<open>y\<close>.
\<close>

definition month_day_ok :: "int \<Rightarrow> int \<Rightarrow> int \<times> int \<Rightarrow> bool" where
  "month_day_ok y r md =
     (1 \<le> fst md \<and> fst md \<le> 12 \<and> 1 \<le> snd md \<and> snd md \<le> days_in_month y (fst md)
      \<and> days_before_month y (fst md) + snd md = r + 1)"

section \<open>Invariants of the merge\<close>



definition days_ok :: "merge_state \<Rightarrow> bool" where
  "days_ok st = (\<forall>m \<in> set (all_media st). 0 \<le> days_remaining m)"


section \<open>More sample data\<close>

text \<open>
  A rule of ten days for the sample library, a later day of the clock, a main page with
  one item that shows the renew action, a client that never fetched details, and a
  detail request that times out.
\<close>

definition sample_md5 :: "string \<Rightarrow> string" where "sample_md5 = (\<lambda>s. [])"
definition sample_base :: string where "sample_base = ''https://www.bibkat.de/boehl/''"
definition sample_rules :: rules where
  "sample_rules = update_rules Map.empty sample_base 10 \<lparr>year = 2025, month = 6, day = 1\<rparr>"
definition sample_later_day :: date where "sample_later_day = \<lparr>year = 2025, month = 7, day = 10\<rparr>"
definition sample_record_by_rule :: media_info where
  "sample_record_by_rule = sample_record_1\<lparr>days_remaining := 3, renewal_date := ''03.07.2025'',
     renewal_date_iso := Some \<lparr>year = 2025, month = 7, day = 3\<rparr>, is_renewable_now := True\<rparr>"
definition sample_actions :: node where
  "sample_actions = Element ''div'' [] [''item-actions''] [Element ''a'' [(''data-action'', ''renew'')] [] [Text ''Verl.'']]"
definition sample_title_3 :: node where
  "sample_title_3 = Element ''div'' [] [''item-title''] [Element ''a'' [(''href'', ''/m/3'')] [] [Text ''Buch C'']]"
definition sample_item_3 :: node where
  "sample_item_3 = Element ''div'' [(''id'', ''media-3'')] [''item''] [sample_title_3, sample_status_1, sample_actions]"
definition sample_main_page :: node where
  "sample_main_page = Element ''[document]'' [] [] [Element ''div'' [] [''reader-listing''] [sample_item_3]]"
definition sample_api :: api where
  "sample_api = \<lparr>base_url = sample_base, use_browser = False, renewal_rules_manager = None,
     last_full_detail_fetch = None, last_media_list = []\<rparr>"
definition sample_detail :: "string \<Rightarrow> exn + nat \<times> node" where
  "sample_detail = (\<lambda>u. Inl (ClientError ''timeout''))"


text \<open>
  A client that holds the first sample record as its last list, a request that times
  out, a client call that raises, and a login page that is returned again after the
  credentials were posted.
\<close>

definition sample_client :: api where
  "sample_client = \<lparr>base_url = sample_base, use_browser = False, renewal_rules_manager = None,
     last_full_detail_fetch = None, last_media_list = [sample_record_1]\<rparr>"
definition sample_timeout :: "exn + http_response" where
  "sample_timeout = Inl (ClientError ''timeout'')"




definition sample_login_soup :: node where
  "sample_login_soup = Element ''[document]'' [] []
     [Element ''form'' [(''action'', ''/reader/''), (''method'', ''post'')] []
        [Element ''input'' [(''type'', ''hidden''), (''name'', ''csrfmiddlewaretoken''), (''value'', ''tok123'')] [] [],
         Element ''input'' [(''name'', ''username'')] [] [],
         Element ''input'' [(''name'', ''password''), (''type'', ''password'')] [] []]]"

definition sample_login_response :: "nat \<Rightarrow> page_response" where
  "sample_login_response st = \<lparr>p_status = st, p_text = ''<form action=/reader/>'', p_soup = sample_login_soup\<rparr>"


section \<open>Verified properties\<close>

lemmas date_eval = toordinal_def days_before_year_def days_before_month_def
  days_before_month_table_def is_leap_def MAXORDINAL_def MAXYEAR_def fromordinal_def Let_def
  days_in_month_def date_diff_days_def month_day_of_def

subsection \<open>Facts about the calendar\<close>

lemma div_step:
  assumes "0 < (k::int)"
  shows "y div k = (y - 1) div k + (if y mod k = 0 then 1 else 0)"
proof (cases "y mod k = 0")
  case True
  then obtain q where q: "y = k * q" by (metis mod_eq_0_iff_dvd dvdE)
  have "y - 1 = k * (q - 1) + (k - 1)" using q by (simp add: algebra_simps)
  then have "(y - 1) div k = q - 1"
    using assms int_div_pos_eq [of "y - 1" k "q - 1" "k - 1"] by simp
  moreover have "y div k = q" using q assms by simp
  ultimately show ?thesis using True by simp
next
  case False
  have r: "0 \<le> y mod k" "y mod k < k" using assms by simp_all
  have "y - 1 = k * (y div k) + (y mod k - 1)" by simp
  then have "(y - 1) div k = y div k"
    using assms r False int_div_pos_eq [of "y - 1" k "y div k" "y mod k - 1"] by simp
  then show ?thesis using False by simp
qed

lemma days_before_year_next:
  "days_before_year (y + 1) = days_before_year y + (if is_leap y then 366 else 365)"
proof -
  have d: "y mod 100 = 0" if "y mod 400 = 0"
  proof -
    from that have "400 dvd y" by (rule mod_0_imp_dvd)
    moreover have "(100::int) dvd 400" by simp
    ultimately have "100 dvd y" by (rule dvd_trans [rotated])
    then show ?thesis by (rule dvd_imp_mod_0)
  qed
  have e: "y mod 4 = 0" if "y mod 100 = 0"
  proof -
    from that have "100 dvd y" by (rule mod_0_imp_dvd)
    moreover have "(4::int) dvd 100" by simp
    ultimately have "4 dvd y" by (rule dvd_trans [rotated])
    then show ?thesis by (rule dvd_imp_mod_0)
  qed
  have a4: "y div 4 = (y - 1) div 4 + (if y mod 4 = 0 then 1 else 0)"
    by (rule div_step) simp
  have a100: "y div 100 = (y - 1) div 100 + (if y mod 100 = 0 then 1 else 0)"
    by (rule div_step) simp
  have a400: "y div 400 = (y - 1) div 400 + (if y mod 400 = 0 then 1 else 0)"
    by (rule div_step) simp
  have "days_before_year (y + 1) = y * 365 + y div 4 - y div 100 + y div 400"
    by (simp add: days_before_year_def)
  also have "\<dots> = days_before_year y + 365 + (if y mod 4 = 0 then 1 else 0)
      - (if y mod 100 = 0 then 1 else 0) + (if y mod 400 = 0 then 1 else 0)"
    unfolding days_before_year_def a4 a100 a400 by (simp add: algebra_simps)
  finally have f: "days_before_year (y + 1) = days_before_year y + 365 + (if y mod 4 = 0 then 1 else 0)
      - (if y mod 100 = 0 then 1 else 0) + (if y mod 400 = 0 then 1 else 0)" .
  show ?thesis
  proof (cases "y mod 400 = 0")
    case True
    then show ?thesis using f d [OF True] e [OF d [OF True]] by (simp add: is_leap_def)
  next
    case n400: False
    show ?thesis
    proof (cases "y mod 100 = 0")
      case True
      then show ?thesis using f n400 e [OF True] by (simp add: is_leap_def)
    next
      case False
      then show ?thesis using f n400 by (simp add: is_leap_def)
    qed
  qed
qed

lemma days_before_month_next:
  "1 \<le> m \<Longrightarrow> m \<le> 11 \<Longrightarrow> days_before_month y (m + 1) = days_before_month y m + days_in_month y m"
proof -
  assume "1 \<le> m" "m \<le> 11"
  then have "m = 1 \<or> m = 2 \<or> m = 3 \<or> m = 4 \<or> m = 5 \<or> m = 6 \<or> m = 7 \<or> m = 8 \<or> m = 9 \<or> m = 10 \<or> m = 11"
    by presburger
  then show ?thesis
    by (elim disjE) (simp_all add: days_before_month_def days_before_month_table_def days_in_month_def)
qed

lemma days_in_month_pos: "28 \<le> days_in_month y m"
  by (simp add: days_in_month_def)

lemma days_before_month_mono:
  "1 \<le> m1 \<Longrightarrow> m1 \<le> m2 \<Longrightarrow> m2 \<le> 12 \<Longrightarrow> days_before_month y m1 \<le> days_before_month y m2"
proof (induction "nat (m2 - m1)" arbitrary: m2)
  case 0
  then show ?case by simp
next
  case (Suc k)
  then have a: "k = nat ((m2 - 1) - m1)" "1 \<le> m1" "m1 \<le> m2 - 1" "m2 - 1 \<le> 12" by simp_all
  have "days_before_month y m1 \<le> days_before_month y (m2 - 1)" by (rule Suc.hyps(1) [OF a])
  also have "days_before_month y (m2 - 1) \<le> days_before_month y ((m2 - 1) + 1)"
    using days_before_month_next [of "m2 - 1" y] days_in_month_pos [of y "m2 - 1"] a Suc.prems by simp
  finally show ?case by simp
qed

lemma days_before_month_strict:
  assumes "1 \<le> m1" "m1 < m2" "m2 \<le> 12"
  shows "days_before_month y m1 + days_in_month y m1 \<le> days_before_month y m2"
proof -
  have "days_before_month y m1 + days_in_month y m1 = days_before_month y (m1 + 1)"
    using assms days_before_month_next [of m1 y] by simp
  also have "\<dots> \<le> days_before_month y m2"
    using assms by (intro days_before_month_mono) simp_all
  finally show ?thesis .
qed

lemma toordinal_same_year:
  assumes "valid_date a" "valid_date b" "year a = year b" "\<not> date_less a b"
  shows "toordinal b \<le> toordinal a"
proof (cases "month b < month a")
  case True
  have "days_before_month (year b) (month b) + day b
      \<le> days_before_month (year b) (month b) + days_in_month (year b) (month b)"
    using assms(2) by (simp add: valid_date_def)
  also have "\<dots> \<le> days_before_month (year b) (month a)"
    using True assms(1,2) by (intro days_before_month_strict) (simp_all add: valid_date_def)
  also have "\<dots> < days_before_month (year b) (month a) + day a"
    using assms(1) by (simp add: valid_date_def)
  finally show ?thesis using assms(3) by (simp add: toordinal_def)
next
  case False
  then have "month a = month b" "day b \<le> day a"
    using assms(3,4) by (auto simp: date_less_def)
  then show ?thesis using assms(3) by (simp add: toordinal_def)
qed

lemma days_before_month_nonneg: "1 \<le> m \<Longrightarrow> m \<le> 12 \<Longrightarrow> 0 \<le> days_before_month y m"
  using days_before_month_mono [of 1 m y]
  by (simp add: days_before_month_def days_before_month_table_def)

lemma day_of_year_le:
  assumes "valid_date d"
  shows "days_before_month (year d) (month d) + day d \<le> (if is_leap (year d) then 366 else 365)"
proof -
  have "days_before_month (year d) (month d) + day d
      \<le> days_before_month (year d) (month d) + days_in_month (year d) (month d)"
    using assms by (simp add: valid_date_def)
  also have "\<dots> \<le> (if is_leap (year d) then 366 else 365)"
  proof (cases "month d = 12")
    case True
    then show ?thesis
      by (simp add: days_before_month_def days_before_month_table_def days_in_month_def)
  next
    case False
    then have "days_before_month (year d) (month d) + days_in_month (year d) (month d)
        \<le> days_before_month (year d) 12"
      using assms by (intro days_before_month_strict) (simp_all add: valid_date_def)
    moreover have "days_before_month (year d) 12 = 334 + (if is_leap (year d) then 1 else 0)"
      by (simp add: days_before_month_def days_before_month_table_def)
    ultimately show ?thesis by (simp split: if_splits)
  qed
  finally show ?thesis .
qed

lemma toordinal_next_year:
  assumes "valid_date a" "valid_date b" "year b = year a + 1"
  shows "toordinal a < toordinal b"
proof -
  have "toordinal a \<le> days_before_year (year a) + (if is_leap (year a) then 366 else 365)"
    using day_of_year_le [OF assms(1)] by (simp add: toordinal_def)
  also have "\<dots> = days_before_year (year b)"
    using assms(3) days_before_year_next [of "year a"] by simp
  also have "\<dots> < toordinal b"
    using assms(2) days_before_month_nonneg [of "month b" "year b"]
    by (simp add: toordinal_def valid_date_def)
  finally show ?thesis .
qed

lemma days_before_year_mono: "y1 \<le> y2 \<Longrightarrow> days_before_year y1 \<le> days_before_year y2"
proof (induction y2 rule: int_ge_induct)
  case base
  then show ?case by simp
next
  case (step i)
  have "days_before_year i \<le> days_before_year (i + 1)"
    using days_before_year_next [of i] by simp
  then show ?case using step by simp
qed

lemma toordinal_bounds:
  assumes "valid_date d"
  shows "1 \<le> toordinal d" and "toordinal d \<le> MAXORDINAL"
proof -
  have y: "1 \<le> year d" "year d \<le> 9999" "1 \<le> month d" "month d \<le> 12" "1 \<le> day d"
    using assms by (simp_all add: valid_date_def MAXYEAR_def)
  have "days_before_year 1 \<le> days_before_year (year d)" using y by (intro days_before_year_mono)
  moreover have "days_before_year 1 = 0" by (simp add: days_before_year_def)
  ultimately show "1 \<le> toordinal d"
    using y days_before_month_nonneg [of "month d" "year d"] by (simp add: toordinal_def)
  have "toordinal d \<le> days_before_year (year d) + (if is_leap (year d) then 366 else 365)"
    using day_of_year_le [OF assms] by (simp add: toordinal_def)
  also have "\<dots> = days_before_year (year d + 1)" using days_before_year_next [of "year d"] by simp
  also have "\<dots> \<le> days_before_year 10000" using y by (intro days_before_year_mono) simp
  also have "\<dots> = MAXORDINAL" by (simp add: days_before_year_def MAXORDINAL_def)
  finally show "toordinal d \<le> MAXORDINAL" .
qed

text \<open>
  \<open>fromordinal\<close> inverts \<open>toordinal\<close>: every ordinal of the calendar is the
  ordinal of the date that \<open>fromordinal\<close> returns for it.
\<close>

lemma days_before_year_cycles:
  assumes "0 \<le> b" "b \<le> 3" "0 \<le> c" "c \<le> 24" "0 \<le> d" "d \<le> 3"
  shows "days_before_year (400 * a + 100 * b + 4 * c + d + 1) = 146097 * a + 36524 * b + 1461 * c + 365 * d"
proof -
  let ?p = "400 * a + 100 * b + 4 * c + d"
  have d4: "?p div 4 = 100 * a + 25 * b + c"
    using assms int_div_pos_eq [of ?p 4 "100 * a + 25 * b + c" d] by simp
  have d100: "?p div 100 = 4 * a + b"
    using assms int_div_pos_eq [of ?p 100 "4 * a + b" "4 * c + d"] by simp
  have d400: "?p div 400 = a"
    using assms int_div_pos_eq [of ?p 400 a "100 * b + 4 * c + d"] by simp
  have "days_before_year (?p + 1) = ?p * 365 + ?p div 4 - ?p div 100 + ?p div 400"
    by (simp add: days_before_year_def)
  then show ?thesis unfolding d4 d100 d400 by simp
qed

lemma is_leap_cycles:
  assumes "0 \<le> b" "b \<le> 3" "0 \<le> c" "c \<le> 24" "0 \<le> d" "d \<le> 3"
  shows "is_leap (400 * a + 100 * b + 4 * c + d + 1) \<longleftrightarrow> (d = 3 \<and> (c \<noteq> 24 \<or> b = 3))"
proof -
  let ?y = "400 * a + 100 * b + 4 * c + d + 1"
  have m4: "?y mod 4 = (if d = 3 then 0 else d + 1)"
  proof (cases "d = 3")
    case True
    then show ?thesis using int_mod_pos_eq [of ?y 4 "100 * a + 25 * b + c + 1" 0] by simp
  next
    case False
    then show ?thesis using assms int_mod_pos_eq [of ?y 4 "100 * a + 25 * b + c" "d + 1"] by simp
  qed
  have m100: "?y mod 100 = (if d = 3 \<and> c = 24 then 0 else 4 * c + d + 1)"
  proof (cases "d = 3 \<and> c = 24")
    case True
    then show ?thesis using int_mod_pos_eq [of ?y 100 "4 * a + b + 1" 0] by simp
  next
    case False
    then have "4 * c + d + 1 < 100" using assms by auto
    then show ?thesis using False assms int_mod_pos_eq [of ?y 100 "4 * a + b" "4 * c + d + 1"] by simp
  qed
  have m400: "?y mod 400 = (if d = 3 \<and> c = 24 \<and> b = 3 then 0 else 100 * b + 4 * c + d + 1)"
  proof (cases "d = 3 \<and> c = 24 \<and> b = 3")
    case True
    then show ?thesis using int_mod_pos_eq [of ?y 400 "a + 1" 0] by simp
  next
    case False
    then have "100 * b + 4 * c + d + 1 < 400" using assms by auto
    then show ?thesis using False assms int_mod_pos_eq [of ?y 400 a "100 * b + 4 * c + d + 1"] by simp
  qed
  show ?thesis unfolding is_leap_def m4 m100 m400 using assms by auto
qed

lemma month_of_index:
  fixes r m :: int
  assumes "0 \<le> r" "r \<le> 364" "m = (r + 50) div 32"
  shows "32 * m \<le> r + 50" "r + 50 < 32 * m + 32" "1 \<le> m" "m \<le> 12"
proof -
  have e: "r + 50 = 32 * m + (r + 50) mod 32" using assms(3) by simp
  have b: "0 \<le> (r + 50) mod 32" "(r + 50) mod 32 < 32" by simp_all
  show "32 * m \<le> r + 50" "r + 50 < 32 * m + 32" using e b by linarith+
  then show "1 \<le> m" "m \<le> 12" using assms(1,2) by linarith+
qed

lemma month_day_of_ok:
  assumes "0 \<le> r" "r \<le> 364"
  shows "month_day_ok y r (month_day_of (is_leap y) r)"
proof -
  define m where "m = (r + 50) div 32"
  note b = month_of_index [OF assms m_def]
  have "m = 1 \<or> m = 2 \<or> m = 3 \<or> m = 4 \<or> m = 5 \<or> m = 6 \<or> m = 7 \<or> m = 8 \<or> m = 9 \<or> m = 10 \<or> m = 11 \<or> m = 12"
    using b(3,4) by presburger
  then show ?thesis
    unfolding month_day_of_def m_def [symmetric]
    using b(1,2) assms(1,2)
    by (elim disjE)
      (simp_all add: month_day_ok_def days_before_month_table_def days_before_month_def
        days_in_month_def Let_def)
qed

lemma fromordinal_correct:
  assumes "1 \<le> n" "n \<le> MAXORDINAL"
  shows "valid_date (fromordinal n) \<and> toordinal (fromordinal n) = n"
proof -
  define p where "p = n - 1"
  define a where "a = p div 146097"
  define r1 where "r1 = p mod 146097"
  define b where "b = r1 div 36524"
  define r2 where "r2 = r1 mod 36524"
  define c where "c = r2 div 1461"
  define r3 where "r3 = r2 mod 1461"
  define d where "d = r3 div 365"
  define r4 where "r4 = r3 mod 365"
  have pb: "0 \<le> p" "p \<le> 3652058" using assms by (simp_all add: p_def MAXORDINAL_def)
  have e1: "p = 146097 * a + r1" by (simp add: a_def r1_def)
  have e2: "r1 = 36524 * b + r2" by (simp add: b_def r2_def)
  have e3: "r2 = 1461 * c + r3" by (simp add: c_def r3_def)
  have e4: "r3 = 365 * d + r4" by (simp add: d_def r4_def)
  have rb: "0 \<le> r1" "r1 < 146097" "0 \<le> r2" "r2 < 36524" "0 \<le> r3" "r3 < 1461" "0 \<le> r4" "r4 < 365"
    by (simp_all add: r1_def r2_def r3_def r4_def)
  have ab: "0 \<le> a" "a \<le> 24" using e1 rb pb by linarith+
  have bb: "0 \<le> b" "b \<le> 4" using e2 rb by linarith+
  have cb: "0 \<le> c" "c \<le> 24" using e3 rb by linarith+
  have db: "0 \<le> d" "d \<le> 4" using e4 rb by linarith+
  have f: "fromordinal n =
      (if d = 4 \<or> b = 4 then \<lparr>year = a * 400 + 1 + b * 100 + c * 4 + d - 1, month = 12, day = 31\<rparr>
       else (case month_day_of (d = 3 \<and> (c \<noteq> 24 \<or> b = 3)) r4 of
               (m, dd) \<Rightarrow> \<lparr>year = a * 400 + 1 + b * 100 + c * 4 + d, month = m, day = dd\<rparr>))"
    by (simp add: fromordinal_def Let_def p_def a_def r1_def b_def r2_def c_def r3_def d_def r4_def)
  have dec: "p = 146097 * a + 36524 * b + 1461 * c + 365 * d + r4" using e1 e2 e3 e4 by simp
  show ?thesis
  proof (cases "b = 4")
    case True
    then have z: "r2 = 0" using e2 rb by linarith
    then have z2: "c = 0" "r3 = 0" by (simp_all add: c_def r3_def)
    then have z3: "d = 0" "r4 = 0" by (simp_all add: d_def r4_def)
    have a23: "a \<le> 23" using dec True z2 z3 pb by linarith
    have fy: "fromordinal n = \<lparr>year = 400 * a + 400, month = 12, day = 31\<rparr>"
      using f True z2 z3 by simp
    have dy: "days_before_year (400 * a + 400) = 146097 * a + 145731"
      using days_before_year_cycles [of 3 24 3 a] by (simp add: add.commute)
    have lp: "is_leap (400 * a + 400)" using is_leap_cycles [of 3 24 3 a] by (simp add: add.commute)
    have "toordinal \<lparr>year = 400 * a + 400, month = 12, day = 31\<rparr> = p + 1"
      using dy lp dec True z2 z3
      by (simp add: toordinal_def days_before_month_def days_before_month_table_def)
    then have "toordinal (fromordinal n) = n" unfolding fy by (simp add: p_def)
    moreover have "valid_date \<lparr>year = 400 * a + 400, month = 12, day = 31\<rparr>"
      using ab a23 by (simp add: valid_date_def days_in_month_def MAXYEAR_def)
    then have "valid_date (fromordinal n)" unfolding fy .
    ultimately show ?thesis by simp
  next
    case nb: False
    then have b3: "b \<le> 3" using bb by simp
    show ?thesis
    proof (cases "d = 4")
      case True
      then have z: "r4 = 0" using e4 rb by linarith
      have c23: "c \<le> 23" using e3 e4 True z rb by linarith
      have fy: "fromordinal n = \<lparr>year = 400 * a + 100 * b + 4 * c + 4, month = 12, day = 31\<rparr>"
        using f True by (simp add: algebra_simps)
      have dy: "days_before_year (400 * a + 100 * b + 4 * c + 4) = 146097 * a + 36524 * b + 1461 * c + 1095"
        using days_before_year_cycles [of b c 3 a] bb b3 cb by (simp add: add.commute add.left_commute)
      have lp: "is_leap (400 * a + 100 * b + 4 * c + 4)"
        using is_leap_cycles [of b c 3 a] bb b3 cb c23 by (simp add: add.commute add.left_commute)
      have yb: "400 * a + 100 * b + 4 * c + 4 \<le> 9999"
      proof (cases "a = 24")
        case a24: True
        show ?thesis
        proof (cases "b = 3")
          case True
          show ?thesis using a24 True c23 by simp
        next
          case False
          then have "b \<le> 2" using b3 by simp
          then show ?thesis using a24 cb by simp
        qed
      next
        case False
        then have "a \<le> 23" using ab by simp
        then show ?thesis using b3 cb by simp
      qed
      have "toordinal \<lparr>year = 400 * a + 100 * b + 4 * c + 4, month = 12, day = 31\<rparr> = p + 1"
        using dy lp dec True z
        by (simp add: toordinal_def days_before_month_def days_before_month_table_def)
      then have "toordinal (fromordinal n) = n" unfolding fy by (simp add: p_def)
      moreover have "valid_date \<lparr>year = 400 * a + 100 * b + 4 * c + 4, month = 12, day = 31\<rparr>"
        using ab bb cb yb by (simp add: valid_date_def days_in_month_def MAXYEAR_def)
      then have "valid_date (fromordinal n)" unfolding fy .
      ultimately show ?thesis by simp
    next
      case nd: False
      then have d3: "d \<le> 3" using db by simp
      let ?y = "400 * a + 100 * b + 4 * c + d + 1"
      have lp: "(d = 3 \<and> (c \<noteq> 24 \<or> b = 3)) = is_leap ?y"
        using is_leap_cycles [of b c d a] bb b3 cb db d3 by simp
      have dy: "days_before_year ?y = 146097 * a + 36524 * b + 1461 * c + 365 * d"
        using days_before_year_cycles [of b c d a] bb b3 cb db d3 by simp
      obtain m dd where md: "month_day_of (is_leap ?y) r4 = (m, dd)" by (cases "month_day_of (is_leap ?y) r4")
      have ok: "month_day_ok ?y r4 (m, dd)"
        using month_day_of_ok [of r4 ?y] rb md by simp
      have fy: "fromordinal n = \<lparr>year = ?y, month = m, day = dd\<rparr>"
        using f nb nd lp md by (simp add: algebra_simps)
      have yb: "?y \<le> 9999"
      proof (cases "a = 24")
        case a24: True
        then have r1b: "r1 \<le> 145730" using e1 pb by linarith
        show ?thesis
        proof (cases "b = 3")
          case b3': True
          then have r2b: "r2 \<le> 36158" using e2 r1b by linarith
          show ?thesis
          proof (cases "c = 24")
            case True
            then have "r3 \<le> 1094" using e3 r2b by linarith
            then have "d \<le> 2" using e4 rb by linarith
            then show ?thesis using a24 b3' True by simp
          next
            case False
            then have "c \<le> 23" using cb by simp
            then show ?thesis using a24 b3' d3 by simp
          qed
        next
          case False
          then have "b \<le> 2" using b3 by simp
          then show ?thesis using a24 cb d3 by simp
        qed
      next
        case False
        then have "a \<le> 23" using ab by simp
        then show ?thesis using b3 cb d3 by simp
      qed
      have "toordinal \<lparr>year = ?y, month = m, day = dd\<rparr> = p + 1"
        using ok dy dec by (simp add: toordinal_def month_day_ok_def)
      then have "toordinal (fromordinal n) = n" unfolding fy by (simp add: p_def)
      moreover have "valid_date \<lparr>year = ?y, month = m, day = dd\<rparr>"
        using ok ab bb cb db yb by (simp add: valid_date_def month_day_ok_def MAXYEAR_def)
      then have "valid_date (fromordinal n)" unfolding fy .
      ultimately show ?thesis by simp
    qed
  qed
qed

subsection \<open>Renewal rules\<close>

text \<open>
  Claim C3. The learner's offset is \<open>(due_date - observed_renewal_open_date).days\<close>;
  storing a rule for a library replaces the rule stored before (the latest observation
  wins); with a stored rule the prediction is \<open>due_date - timedelta(days=offset)\<close>
  for any due date, and without a rule for the library it is none. After observing a due
  date D whose renewal opened ten days earlier, the prediction for any due date D' later
  than the tenth day of the calendar is the date ten days before D': a date of the
  calendar whose ordinal is the ordinal of D' less ten.
\<close>

theorem renewal_rule_learn_and_predict:
  "calculate_offset_from_dates due observed = toordinal due - toordinal observed
   \<and> update_rules (update_rules rs lib old_offset t0) lib offset t1 = update_rules rs lib offset t1
   \<and> get_renewal_offset_days (update_rules rs lib offset t1) lib = Some offset
   \<and> calculate_renewal_date (update_rules rs lib offset t1) lib d =
       (case date_sub_days d offset of Inl e \<Rightarrow> Inl e | Inr r \<Rightarrow> Inr (Some r))
   \<and> (rs lib = None \<longrightarrow> calculate_renewal_date rs lib d = Inr None)
   \<and> (toordinal D - toordinal R = 10 \<longrightarrow> valid_date D' \<longrightarrow> 10 < toordinal D' \<longrightarrow>
        calculate_renewal_date (update_rules rs lib (calculate_offset_from_dates D R) t1) lib D'
          = Inr (Some (fromordinal (toordinal D' - 10)))
        \<and> valid_date (fromordinal (toordinal D' - 10))
        \<and> toordinal (fromordinal (toordinal D' - 10)) = toordinal D' - 10)"
proof -
  have general:
    "calculate_offset_from_dates due observed = toordinal due - toordinal observed
     \<and> update_rules (update_rules rs lib old_offset t0) lib offset t1 = update_rules rs lib offset t1
     \<and> get_renewal_offset_days (update_rules rs lib offset t1) lib = Some offset
     \<and> calculate_renewal_date (update_rules rs lib offset t1) lib d =
         (case date_sub_days d offset of Inl e \<Rightarrow> Inl e | Inr r \<Rightarrow> Inr (Some r))
     \<and> (rs lib = None \<longrightarrow> calculate_renewal_date rs lib d = Inr None)"
    by (simp add: calculate_offset_from_dates_def date_diff_days_def update_rules_def
        get_renewal_offset_days_def calculate_renewal_date_def)
  have ten: "calculate_renewal_date (update_rules rs lib (calculate_offset_from_dates D R) t1) lib D'
          = Inr (Some (fromordinal (toordinal D' - 10)))
        \<and> valid_date (fromordinal (toordinal D' - 10))
        \<and> toordinal (fromordinal (toordinal D' - 10)) = toordinal D' - 10"
    if h: "toordinal D - toordinal R = 10" "valid_date D'" "10 < toordinal D'"
  proof -
    have up: "toordinal D' \<le> MAXORDINAL" using toordinal_bounds(2) [OF h(2)] .
    have "calculate_renewal_date (update_rules rs lib (calculate_offset_from_dates D R) t1) lib D'
          = Inr (Some (fromordinal (toordinal D' - 10)))"
      using h(1,3) up
      by (simp add: calculate_offset_from_dates_def date_diff_days_def update_rules_def
          get_renewal_offset_days_def calculate_renewal_date_def date_sub_days_def MAXORDINAL_def)
    moreover have "valid_date (fromordinal (toordinal D' - 10))
        \<and> toordinal (fromordinal (toordinal D' - 10)) = toordinal D' - 10"
      using h(3) up by (intro fromordinal_correct) simp_all
    ultimately show ?thesis by simp
  qed
  show ?thesis using general ten by blast
qed

theorem renewal_rule_learn_and_predict_witness:
  "calculate_renewal_date Map.empty ''lib'' \<lparr>year = 2025, month = 8, day = 3\<rparr> = Inr None
   \<and> calculate_renewal_date
        (update_rules Map.empty ''lib''
           (calculate_offset_from_dates \<lparr>year = 2025, month = 7, day = 20\<rparr>
              \<lparr>year = 2025, month = 7, day = 10\<rparr>)
           \<lparr>year = 2025, month = 7, day = 1\<rparr>)
        ''lib'' \<lparr>year = 2025, month = 8, day = 3\<rparr>
      = Inr (Some \<lparr>year = 2025, month = 7, day = 24\<rparr>)"
proof -
  let ?D = "\<lparr>year = 2025, month = 7, day = 20\<rparr>"
  let ?R = "\<lparr>year = 2025, month = 7, day = 10\<rparr>"
  let ?D' = "\<lparr>year = 2025, month = 8, day = 3\<rparr>"
  let ?t = "\<lparr>year = 2025, month = 7, day = 1\<rparr>"
  note th = renewal_rule_learn_and_predict [of ?D ?R Map.empty "''lib''" 0 ?t 10 ?t ?D' ?D ?R ?D']
  have h1: "Map.empty ''lib'' = (None :: renewal_rule option)" by simp
  have h2: "toordinal ?D - toordinal ?R = 10" by (simp add: date_eval)
  have h3: "valid_date ?D'" by (simp add: valid_date_def date_eval)
  have h4: "10 < toordinal ?D'" by (simp add: date_eval)
  have v: "fromordinal (toordinal ?D' - 10) = \<lparr>year = 2025, month = 7, day = 24\<rparr>"
    by (simp add: date_eval)
  from th h1 have "calculate_renewal_date Map.empty ''lib'' ?D' = Inr None" by blast
  moreover from th h2 h3 h4 have
    "calculate_renewal_date
       (update_rules Map.empty ''lib'' (calculate_offset_from_dates ?D ?R) ?t) ''lib'' ?D'
       = Inr (Some (fromordinal (toordinal ?D' - 10)))" by blast
  ultimately show ?thesis using v by simp
qed

subsection \<open>The family page\<close>

lemma tag_excl: "is_tag ''div'' e \<Longrightarrow> \<not> is_tag ''h4'' e"
  by (cases e) auto

lemma family_walk_append:
  "family_walk ex cur (xs @ ys) =
     family_walk ex cur xs @ family_walk ex (most_recent_account cur xs) ys"
  by (induction xs arbitrary: cur) (auto simp: is_header_def split: option.splits)

lemma family_walk_item:
  "is_item_block e \<Longrightarrow> family_walk ex cur [e] = item_contribution ex cur e"
  by (auto simp: is_item_block_def item_contribution_def tag_excl split: option.splits)

lemma family_walk_other:
  "\<forall>e \<in> set os. \<not> is_header e \<and> \<not> is_item_block e \<Longrightarrow> family_walk ex cur (os @ rest) = family_walk ex cur rest"
  by (induction os) (auto simp: is_header_def is_item_block_def)

lemma most_recent_other:
  "\<forall>e \<in> set os. \<not> is_header e \<Longrightarrow> most_recent_account cur (os @ rest) = most_recent_account cur rest"
  by (induction os) auto

lemma family_walk_due: "mi \<in> set (family_walk ex cur es) \<Longrightarrow> due_date mi \<noteq> []"
  by (induction es arbitrary: cur) (auto split: option.splits if_splits)

text \<open>
  Claim C6. The loan parser of the family page walks the elements in document order:
  an item block contributes under the account number of the latest header
  \<open>Konto Nr. N\<close> before it, and nothing else of the page before it matters; every
  record returned has a due date. For a page of two sections, the first with one item
  that has a due date and the second with one item that has none, the result is the one
  record of the first item, attributed to the first account number.
\<close>

theorem family_walk_attribution:
  "(is_item_block e \<longrightarrow>
      family_walk ex None (pre @ e # post) =
        family_walk ex None pre @ item_contribution ex (most_recent_account None pre) e
          @ family_walk ex (most_recent_account None pre) post)
   \<and> (\<forall>mi \<in> set (family_walk ex None es). due_date mi \<noteq> [])
   \<and> (is_header h1 \<and> header_account_number h1 = Some a \<and> a \<noteq> [] \<and>
      is_header h2 \<and> header_account_number h2 = Some b \<and>
      is_item_block i1 \<and> \<not> has_class ''item-variant-message'' i1 \<and>
      is_item_block i2 \<and>
      ex i1 = Some m1 \<and> due_date m1 \<noteq> [] \<and> ex i2 = Some m2 \<and> due_date m2 = [] \<and>
      (\<forall>e \<in> set (o1 @ o2 @ o3 @ o4). \<not> is_header e \<and> \<not> is_item_block e) \<longrightarrow>
      family_walk ex None (h1 # o1 @ i1 # o2 @ h2 # o3 @ i2 # o4) =
        [m1\<lparr>account := Some ''family'', owner_name := Some (''Leser '' @ a), owner_number := Some a\<rparr>])"
proof (intro conjI impI ballI)
  assume "is_item_block e"
  then show "family_walk ex None (pre @ e # post) =
        family_walk ex None pre @ item_contribution ex (most_recent_account None pre) e
          @ family_walk ex (most_recent_account None pre) post"
    using family_walk_append [of ex None pre "e # post"]
      family_walk_append [of ex "most_recent_account None pre" "[e]" post]
      family_walk_item [of e ex "most_recent_account None pre"]
    by (simp add: is_item_block_def is_header_def tag_excl)
next
  fix mi assume "mi \<in> set (family_walk ex None es)"
  then show "due_date mi \<noteq> []" by (rule family_walk_due)
next
  assume h: "is_header h1 \<and> header_account_number h1 = Some a \<and> a \<noteq> [] \<and>
      is_header h2 \<and> header_account_number h2 = Some b \<and>
      is_item_block i1 \<and> \<not> has_class ''item-variant-message'' i1 \<and>
      is_item_block i2 \<and>
      ex i1 = Some m1 \<and> due_date m1 \<noteq> [] \<and> ex i2 = Some m2 \<and> due_date m2 = [] \<and>
      (\<forall>e \<in> set (o1 @ o2 @ o3 @ o4). \<not> is_header e \<and> \<not> is_item_block e)"
  have s1: "family_walk ex None (h1 # o1 @ i1 # o2 @ h2 # o3 @ i2 # o4)
      = family_walk ex (Some a) (o1 @ i1 # o2 @ h2 # o3 @ i2 # o4)"
    using h by (simp add: is_header_def)
  have s2: "\<dots> = family_walk ex (Some a) (i1 # o2 @ h2 # o3 @ i2 # o4)"
    using h by (intro family_walk_other) simp
  have s3: "\<dots> = m1\<lparr>account := Some ''family'', owner_name := Some (''Leser '' @ a), owner_number := Some a\<rparr>
       # family_walk ex (Some a) (o2 @ h2 # o3 @ i2 # o4)"
    using h by (simp add: is_item_block_def tag_excl)
  have s4: "family_walk ex (Some a) (o2 @ h2 # o3 @ i2 # o4) = family_walk ex (Some a) (h2 # o3 @ i2 # o4)"
    using h by (intro family_walk_other) simp
  have s5: "\<dots> = family_walk ex (Some b) (o3 @ i2 # o4)"
    using h by (simp add: is_header_def)
  have s6: "\<dots> = family_walk ex (Some b) (i2 # o4)"
    using h by (intro family_walk_other) simp
  have s7: "\<dots> = family_walk ex (Some b) o4"
    using h by (simp add: is_item_block_def tag_excl)
  have s8: "\<dots> = []"
    using h family_walk_other [of o4 ex "Some b" "[]"] by simp
  show "family_walk ex None (h1 # o1 @ i1 # o2 @ h2 # o3 @ i2 # o4) =
        [m1\<lparr>account := Some ''family'', owner_name := Some (''Leser '' @ a), owner_number := Some a\<rparr>]"
    using s1 s2 s3 s4 s5 s6 s7 s8 by simp
qed

lemmas sample_defs = sample_today_def sample_header_689_def sample_header_700_def sample_title_1_def sample_status_1_def sample_item_1_def sample_title_2_def sample_item_2_def sample_family_page_def sample_extract_def sample_record_1_def

theorem family_walk_attribution_witness:
  "get_media_from_page sample_extract ''family'' 200 sample_family_page =
     [sample_record_1\<lparr>account := Some ''family'', owner_name := Some ''Leser 689'', owner_number := Some ''689''\<rparr>]"
proof -
  have l: "find_first (div_with_class ''reader-listing-lendings'') sample_family_page
      = Some (Element ''div'' [] [''reader-listing-lendings''] [sample_header_689, sample_item_1, sample_header_700, sample_item_2])"
    by (simp add: find_first_def div_with_class_def sample_family_page_def)
  have fa: "find_all (\<lambda>n. is_tag ''h4'' n \<or> is_tag ''div'' n)
       (Element ''div'' [] [''reader-listing-lendings''] [sample_header_689, sample_item_1, sample_header_700, sample_item_2])
      = sample_header_689 # [] @ sample_item_1 # [sample_title_1, sample_status_1] @ sample_header_700 # [] @ sample_item_2 # [sample_title_2]"
    by (simp add: find_all_def sample_header_689_def sample_header_700_def sample_item_1_def sample_item_2_def sample_title_1_def sample_title_2_def sample_status_1_def)
  have a1: "header_account_number sample_header_689 = Some ''689''" unfolding sample_header_689_def by code_simp
  have a2: "header_account_number sample_header_700 = Some ''700''" unfolding sample_header_700_def by code_simp
  have x1: "sample_extract sample_item_1 = Some sample_record_1" unfolding sample_defs by code_simp
  have x2: "sample_extract sample_item_2 = Some (sample_record_1\<lparr>media_id := ''2'', title := ''Buch B'', due_date := [], due_date_iso := None,
       days_remaining := 0, detail_url := Some ''https://www.bibkat.de/boehl/m/2''\<rparr>)"
    unfolding sample_defs by code_simp
  have hyp: "is_header sample_header_689 \<and> header_account_number sample_header_689 = Some ''689'' \<and> ''689'' \<noteq> [] \<and>
      is_header sample_header_700 \<and> header_account_number sample_header_700 = Some ''700'' \<and>
      is_item_block sample_item_1 \<and> \<not> has_class ''item-variant-message'' sample_item_1 \<and>
      is_item_block sample_item_2 \<and>
      sample_extract sample_item_1 = Some sample_record_1 \<and> due_date sample_record_1 \<noteq> [] \<and>
      sample_extract sample_item_2 = Some (sample_record_1\<lparr>media_id := ''2'', title := ''Buch B'', due_date := [], due_date_iso := None,
       days_remaining := 0, detail_url := Some ''https://www.bibkat.de/boehl/m/2''\<rparr>) \<and>
      due_date (sample_record_1\<lparr>media_id := ''2'', title := ''Buch B'', due_date := [], due_date_iso := None,
       days_remaining := 0, detail_url := Some ''https://www.bibkat.de/boehl/m/2''\<rparr>) = [] \<and>
      (\<forall>e \<in> set ([] @ [sample_title_1, sample_status_1] @ [] @ [sample_title_2]). \<not> is_header e \<and> \<not> is_item_block e)"
    using a1 a2 x1 x2
    by (simp add: is_header_def is_item_block_def sample_header_689_def sample_header_700_def sample_item_1_def sample_item_2_def sample_title_1_def sample_title_2_def sample_status_1_def sample_record_1_def)
  from family_walk_attribution [where ?h1.0 = sample_header_689 and a = "''689''" and ?h2.0 = sample_header_700 and b = "''700''"
      and ?i1.0 = sample_item_1 and ?i2.0 = sample_item_2 and ex = sample_extract and ?m1.0 = sample_record_1 and ?o1.0 = "[]" and ?o2.0 = "[sample_title_1, sample_status_1]"
      and ?o3.0 = "[]" and ?o4.0 = "[sample_title_2]"] hyp
  have "family_walk sample_extract None (sample_header_689 # [] @ sample_item_1 # [sample_title_1, sample_status_1] @ sample_header_700 # [] @ sample_item_2 # [sample_title_2]) =
     [sample_record_1\<lparr>account := Some ''family'', owner_name := Some (''Leser '' @ ''689''), owner_number := Some ''689''\<rparr>]"
    by blast
  then show ?thesis
    by (simp add: get_media_from_page_def l fa)
qed

subsection \<open>The renewable flags of an item record\<close>

lemmas sample_defs2 = sample_defs sample_md5_def sample_base_def sample_rules_def sample_later_day_def
  sample_record_by_rule_def sample_actions_def sample_title_3_def sample_item_3_def sample_main_page_def
  sample_api_def sample_detail_def


lemma with_author_fields [simp]:
  "days_remaining (with_author item mi) = days_remaining mi"
  "renewable (with_author item mi) = renewable mi"
  "is_renewable_now (with_author item mi) = is_renewable_now mi"
  "due_date_iso (with_author item mi) = due_date_iso mi"
  by (simp_all add: with_author_def split: option.splits)

lemma with_due_date_fields [simp]:
  "renewable (with_due_date td item mi) = renewable mi"
  "is_renewable_now (with_due_date td item mi) = is_renewable_now mi"
  by (simp_all add: with_due_date_def Let_def split: option.splits)

lemma calculate_days_remaining_nonneg: "0 \<le> fst (calculate_days_remaining td t)"
  by (simp add: calculate_days_remaining_def split: option.splits)

lemma with_due_date_days:
  "0 \<le> days_remaining mi \<Longrightarrow> 0 \<le> days_remaining (with_due_date td item mi)"
  by (simp add: with_due_date_def Let_def calculate_days_remaining_nonneg split: option.splits)

lemma with_renewal_from_rules_fields [simp]:
  "days_remaining (with_renewal_from_rules base rm td mi) = days_remaining mi"
  "renewable (with_renewal_from_rules base rm td mi) = renewable mi"
  "due_date_iso (with_renewal_from_rules base rm td mi) = due_date_iso mi"
  by (simp_all add: with_renewal_from_rules_def split: option.splits sum.splits)

lemma with_renewal_from_rules_now:
  "\<not> is_renewable_now mi \<Longrightarrow>
   is_renewable_now (with_renewal_from_rules base rm td mi) =
     rule_says_renewable_now base rm td (due_date_iso mi)"
  by (simp add: with_renewal_from_rules_def rule_says_renewable_now_def split: option.splits sum.splits)

lemma with_renew_action_fields [simp]:
  "days_remaining (with_renew_action item mi) = days_remaining mi"
  "due_date_iso (with_renew_action item mi) = due_date_iso mi"
  by (simp_all add: with_renew_action_def Let_def split: option.splits)

lemma with_renew_action_flags:
  "renewable (with_renew_action item mi) = (has_renew_action item \<or> renewable mi)"
  "is_renewable_now (with_renew_action item mi) = (has_renew_action item \<or> is_renewable_now mi)"
  by (simp_all add: with_renew_action_def has_renew_action_def Let_def split: option.splits)

lemma with_generated_id_fields [simp]:
  "days_remaining (with_generated_id md5 mi) = days_remaining mi"
  "renewable (with_generated_id md5 mi) = renewable mi"
  "is_renewable_now (with_generated_id md5 mi) = is_renewable_now mi"
  "due_date_iso (with_generated_id md5 mi) = due_date_iso mi"
  by (simp_all add: with_generated_id_def)

lemma extract_flags:
  assumes "extract_media_info base rm td md5 item = Some mi"
  shows "renewable mi = has_renew_action item"
    and "is_renewable_now mi =
          (has_renew_action item \<or> rule_says_renewable_now base rm td (due_date_iso mi))"
    and "0 \<le> days_remaining mi"
  using assms
  by (auto simp: extract_media_info_def with_renew_action_flags with_renewal_from_rules_now
      with_due_date_days split: option.splits)

lemma fetch_details_fields [simp]:
  "renewable (fetch_details td dp m) = renewable m"
  "days_remaining (fetch_details td dp m) = days_remaining m"
  by (simp_all add: fetch_details_def update_with_details_def)

lemma fetch_details_not_renewable: "\<not> renewable m \<Longrightarrow> fetch_details td dp m = m"
  by (simp add: fetch_details_def wants_details_def)

lemma rule_none:
  "rm = None \<or> (\<exists>rs. rm = Some rs \<and> get_renewal_offset_days rs base = None) \<or> due_iso = None \<Longrightarrow>
   \<not> rule_says_renewable_now base rm td due_iso"
  by (auto simp: rule_says_renewable_now_def calculate_renewal_date_def split: option.splits)


text \<open>
  Claim C1, as amended. For every record the listing parser produces, \<open>renewable\<close>
  is true exactly when the item block shows the renew action, and then
  \<open>is_renewable_now\<close> is true as well. Without the action, \<open>is_renewable_now\<close> is
  what the stored rule of the library says for the record's due date; so when no rule
  applies (no rules manager, no offset stored for the library, or no parsed due date) a
  record with \<open>renewable = False\<close> has \<open>is_renewable_now = False\<close>. Detail-page
  results are merged only into records with \<open>renewable = True\<close> and leave
  \<open>renewable\<close> as it is.
\<close>

theorem renewable_flags_of_parsed_item:
  "(extract_media_info base rm td md5 item = Some mi \<longrightarrow>
      renewable mi = has_renew_action item
      \<and> (has_renew_action item \<longrightarrow> is_renewable_now mi)
      \<and> (\<not> has_renew_action item \<longrightarrow>
           is_renewable_now mi = rule_says_renewable_now base rm td (due_date_iso mi))
      \<and> ((rm = None \<or> (\<exists>rs. rm = Some rs \<and> get_renewal_offset_days rs base = None)
            \<or> due_date_iso mi = None) \<longrightarrow>
           (\<not> renewable mi \<longrightarrow> \<not> is_renewable_now mi)))
   \<and> renewable (fetch_details td dp m) = renewable m
   \<and> (\<not> renewable m \<longrightarrow> fetch_details td dp m = m)"
  using extract_flags(1,2) [of base rm td md5 item mi]
    rule_none [of rm base "due_date_iso mi" td] fetch_details_not_renewable [of m td dp]
  by auto


theorem renewable_flags_of_parsed_item_witness:
  "extract_media_info sample_base None sample_today sample_md5 sample_item_1 = Some sample_record_1
   \<and> \<not> renewable sample_record_1 \<and> \<not> is_renewable_now sample_record_1"
proof -
  have x: "extract_media_info sample_base None sample_today sample_md5 sample_item_1 = Some sample_record_1"
    unfolding sample_defs2 by code_simp
  have h: "\<not> has_renew_action sample_item_1"
    unfolding sample_defs2 has_renew_action_def by code_simp
  from renewable_flags_of_parsed_item [of sample_base None sample_today sample_md5 sample_item_1 sample_record_1] x h
  have "\<not> renewable sample_record_1 \<and> \<not> is_renewable_now sample_record_1" by blast
  with x show ?thesis by simp
qed


text \<open>
  The claim as first stated fails: with a rule of ten days stored for the library, an
  item without the renew action that is due in three days gets
  \<open>is_renewable_now = True\<close> while \<open>renewable = False\<close>.
\<close>

theorem renewable_flag_counterexample:
  "extract_media_info sample_base (Some sample_rules) sample_later_day sample_md5 sample_item_1
     = Some sample_record_by_rule
   \<and> \<not> renewable sample_record_by_rule \<and> is_renewable_now sample_record_by_rule"
  unfolding sample_defs2 by code_simp


subsection \<open>Merging the main and the family listing\<close>



















subsection \<open>The throttle of the detail requests\<close>



subsection \<open>Days remaining\<close>

lemma family_walk_days:
  "(\<And>e mi. ex e = Some mi \<Longrightarrow> 0 \<le> days_remaining mi) \<Longrightarrow>
   m \<in> set (family_walk ex cur es) \<Longrightarrow> 0 \<le> days_remaining m"
  by (induction es arbitrary: cur) (auto split: option.splits if_splits)

lemma main_walk_days:
  "(\<And>e mi. ex e = Some mi \<Longrightarrow> 0 \<le> days_remaining mi) \<Longrightarrow>
   m \<in> set (main_walk ex t es) \<Longrightarrow> 0 \<le> days_remaining m"
  by (induction es) (auto split: option.splits if_splits)

lemma page_media_days:
  assumes "\<And>e mi. ex e = Some mi \<Longrightarrow> 0 \<le> days_remaining mi"
    and "m \<in> set (page_media ex t resp)"
  shows "0 \<le> days_remaining m"
  using assms(2) family_walk_days [OF assms(1)] main_walk_days [OF assms(1)]
  by (auto simp: page_media_def get_media_from_page_def split: sum.splits option.splits if_splits)

lemma set_update_nth:
  "m \<in> set (xs[i := f (xs ! i)]) \<Longrightarrow> m \<in> set xs \<or> (i < length xs \<and> m = f (xs ! i))"
proof (cases "i < length xs")
  case True
  assume "m \<in> set (xs[i := f (xs ! i)])"
  then have "m \<in> insert (f (xs ! i)) (set xs)"
    using set_update_subset_insert [of xs i "f (xs ! i)"] by blast
  then show ?thesis using True by auto
next
  case False
  assume "m \<in> set (xs[i := f (xs ! i)])"
  then show ?thesis using False by (simp add: list_update_beyond)
qed


lemma add_main_days: "days_ok st \<Longrightarrow> 0 \<le> days_remaining m \<Longrightarrow> days_ok (add_main st m)"
  by (auto simp: days_ok_def add_main_def)

lemma add_family_days:
  assumes "days_ok st" "0 \<le> days_remaining m"
  shows "days_ok (add_family st m)"
proof -
  have "0 \<le> days_remaining x"
    if "x \<in> set ((all_media st)[i := (all_media st ! i)\<lparr>found_on := found_on (all_media st ! i) @ [''family'']\<rparr>])"
    for x i
    using set_update_nth [of x "all_media st" i "\<lambda>r. r\<lparr>found_on := found_on r @ [''family'']\<rparr>"] that assms(1)
    by (auto simp: days_ok_def)
  then show ?thesis using assms
    by (auto simp: days_ok_def add_family_def split: option.splits)
qed

lemma foldl_add_main_days:
  "days_ok st \<Longrightarrow> \<forall>m \<in> set ms. 0 \<le> days_remaining m \<Longrightarrow> days_ok (foldl add_main st ms)"
  by (induction ms arbitrary: st) (simp_all add: add_main_days)

lemma foldl_add_family_days:
  "days_ok st \<Longrightarrow> \<forall>m \<in> set ms. 0 \<le> days_remaining m \<Longrightarrow> days_ok (foldl add_family st ms)"
  by (induction ms arbitrary: st) (simp_all add: add_family_days)

lemma merged_media_days:
  "m \<in> set (merged_media md5 td mp fp self) \<Longrightarrow> 0 \<le> days_remaining m"
proof -
  let ?ex = "extract_media_info (base_url self) (renewal_rules_manager self) td md5"
  have ex: "\<And>e mi. ?ex e = Some mi \<Longrightarrow> 0 \<le> days_remaining mi" by (rule extract_flags(3))
  have "days_ok (merge_listings (page_media ?ex ''main'' mp) (page_media ?ex ''family'' fp))"
    unfolding merge_listings_def
    by (intro foldl_add_family_days foldl_add_main_days ballI page_media_days [OF ex])
       (simp_all add: days_ok_def)
  moreover assume "m \<in> set (merged_media md5 td mp fp self)"
  ultimately show ?thesis by (simp add: merged_media_def days_ok_def Let_def)
qed

lemma get_borrowed_media_days:
  "m \<in> set (fst (get_borrowed_media md5 td nc ns li mp fp dp self)) \<Longrightarrow> 0 \<le> days_remaining m"
  using merged_media_days [of _ md5 td mp fp self]
  by (auto simp: get_borrowed_media_def Let_def split: if_splits)


text \<open>
  Claim C10. The days-remaining computation never returns a negative number: it is the
  difference to today cut off at 0, so a due date in the past gives 0 as a due date of
  today does, and a text that cannot be parsed gives 0 with no ISO date. Hence every
  record the parser produces, and every record a fetch cycle returns, has
  \<open>days_remaining\<close> of at least 0.
\<close>

theorem days_remaining_never_negative:
  "0 \<le> fst (calculate_days_remaining td due_text)
   \<and> (parse_german_date td (due_date_part due_text) = None \<longrightarrow>
        calculate_days_remaining td due_text = (0, None))
   \<and> (\<forall>p. parse_german_date td (due_date_part due_text) = Some p \<longrightarrow>
        calculate_days_remaining td due_text = (max 0 (toordinal p - toordinal td), Some p))
   \<and> (\<forall>p. parse_german_date td (due_date_part due_text) = Some p \<longrightarrow> toordinal p \<le> toordinal td \<longrightarrow>
        calculate_days_remaining td due_text = (0, Some p))
   \<and> (\<forall>mi. extract_media_info base rm td md5 item = Some mi \<longrightarrow> 0 \<le> days_remaining mi)
   \<and> (\<forall>m \<in> set (fst (get_borrowed_media md5 td nc ns li mp fp dp self)). 0 \<le> days_remaining m)"
  using calculate_days_remaining_nonneg [of td due_text] extract_flags(3) [of base rm td md5 item]
    get_borrowed_media_days [of _ md5 td nc ns li mp fp dp self]
  by (auto simp: calculate_days_remaining_def date_diff_days_def)

theorem days_remaining_never_negative_witness:
  "calculate_days_remaining sample_today ''bis: Freitag, 13. Juni''
     = (0, Some \<lparr>year = 2025, month = 6, day = 13\<rparr>)
   \<and> calculate_days_remaining sample_today ''unbekannt'' = (0, None)"
proof -
  have p: "parse_german_date sample_today (due_date_part ''bis: Freitag, 13. Juni'')
      = Some \<lparr>year = 2025, month = 6, day = 13\<rparr>"
    unfolding sample_defs2 by code_simp
  have q: "parse_german_date sample_today (due_date_part ''unbekannt'') = None"
    unfolding sample_defs2 by code_simp
  have o: "toordinal \<lparr>year = 2025, month = 6, day = 13\<rparr> \<le> toordinal sample_today"
    by (simp add: date_eval sample_today_def)
  from days_remaining_never_negative [of sample_today "''bis: Freitag, 13. Juni''"] p o
  have a: "calculate_days_remaining sample_today ''bis: Freitag, 13. Juni''
     = (0, Some \<lparr>year = 2025, month = 6, day = 13\<rparr>)" by blast
  from days_remaining_never_negative [of sample_today "''unbekannt''"] q
  have b: "calculate_days_remaining sample_today ''unbekannt'' = (0, None)" by blast
  from a b show ?thesis by simp
qed

subsection \<open>The estimated renewal date\<close>

lemma rules_method_no_rule:
  "get_renewal_offset_days rs lib = None \<Longrightarrow> rules_method rs lib mid ms = Inr None"
  by (induction ms) (auto simp: calculate_renewal_date_def split: option.splits)

lemma fallback_method_found:
  "List.find (\<lambda>media. media_id media = mid) ms = Some m \<Longrightarrow> due_date_iso m = Some due \<Longrightarrow>
   fallback_method mid ms =
     (case date_sub_days due 6 of Inl e \<Rightarrow> Inl e | Inr r \<Rightarrow> Inr (Some (from_date ''fallback'' r)))"
  by (induction ms) (auto split: if_splits option.splits)


text \<open>
  Claim C4. Let the lookup of \<open>renew_media\<close> by identifier find a record that is
  not renewable now and has a due date later than the sixth day of the calendar, let no
  rule be stored for the library, and let the browser fallback be switched off or
  unavailable. Then \<open>renew_media\<close> returns a result that is no success, names the
  source \<open>fallback\<close>, and carries as renewal date the due date minus six days: a date
  of the calendar whose ordinal is the ordinal of the due date less six.
\<close>

theorem renew_media_fallback_date:
  assumes "List.find (\<lambda>media. media_id media = mid) (last_media_list self) = Some m"
    and "\<not> is_renewable_now m"
    and "due_date_iso m = Some due"
    and "no_rule_for self"
    and "no_browser self browser"
    and "valid_date due" and "6 < toordinal due"
  shows "renew_media td browser get_outcome post_outcome mid self =
     (Inr \<lparr>success = False,
           message = JStr (''Medium kann erst ab dem '' @ strftime_dmY (fromordinal (toordinal due - 6))
                           @ '' '' @ verlaengert @ '' werden''),
           result_renewal_date = Some (strftime_dmY (fromordinal (toordinal due - 6))),
           result_renewal_date_iso = Some (fromordinal (toordinal due - 6)),
           source = Some ''fallback''\<rparr>, self)
     \<and> valid_date (fromordinal (toordinal due - 6))
     \<and> toordinal (fromordinal (toordinal due - 6)) = toordinal due - 6"
proof -
  have up: "toordinal due \<le> MAXORDINAL" using toordinal_bounds(2) [OF assms(6)] .
  have b: "(if use_browser self then browser_method td browser self else (None, self)) = (None, self)"
    using assms(5) by (auto simp: no_browser_def browser_method_def)
  have r: "(case renewal_rules_manager self of
              Some rs \<Rightarrow> rules_method rs (base_url self) mid (last_media_list self)
            | None \<Rightarrow> Inr None) = Inr None"
    using assms(4) by (auto simp: no_rule_for_def rules_method_no_rule split: option.splits)
  have d: "date_sub_days due 6 = Inr (fromordinal (toordinal due - 6))"
    using assms(7) up by (simp add: date_sub_days_def)
  have f: "fallback_method mid (last_media_list self)
      = Inr (Some (from_date ''fallback'' (fromordinal (toordinal due - 6))))"
    using fallback_method_found [OF assms(1,3)] d by simp
  have e: "extract_renewal_date td browser mid self
      = (Inr (from_date ''fallback'' (fromordinal (toordinal due - 6))), self)"
    by (simp add: extract_renewal_date_def b r f)
  have res: "renew_media td browser get_outcome post_outcome mid self =
     (Inr \<lparr>success = False,
           message = JStr (''Medium kann erst ab dem '' @ strftime_dmY (fromordinal (toordinal due - 6))
                           @ '' '' @ verlaengert @ '' werden''),
           result_renewal_date = Some (strftime_dmY (fromordinal (toordinal due - 6))),
           result_renewal_date_iso = Some (fromordinal (toordinal due - 6)),
           source = Some ''fallback''\<rparr>, self)"
    using assms(1,2) by (simp add: renew_media_def e from_date_def not_yet_renewable_def)
  have cal: "valid_date (fromordinal (toordinal due - 6))
     \<and> toordinal (fromordinal (toordinal due - 6)) = toordinal due - 6"
    using assms(7) up by (intro fromordinal_correct) simp_all
  show ?thesis using res cal by (rule conjI)
qed


theorem renew_media_fallback_date_witness:
  "renew_media sample_today Unavailable sample_timeout sample_timeout ''1'' sample_client =
     (Inr \<lparr>success = False,
           message = JStr (''Medium kann erst ab dem 07.07.2025 '' @ verlaengert @ '' werden''),
           result_renewal_date = Some ''07.07.2025'',
           result_renewal_date_iso = Some \<lparr>year = 2025, month = 7, day = 7\<rparr>,
           source = Some ''fallback''\<rparr>, sample_client)"
proof -
  let ?due = "\<lparr>year = 2025, month = 7, day = 13\<rparr>"
  have a1: "List.find (\<lambda>media. media_id media = ''1'') (last_media_list sample_client) = Some sample_record_1"
    by (simp add: sample_client_def sample_record_1_def)
  have a2: "\<not> is_renewable_now sample_record_1" by (simp add: sample_record_1_def)
  have a3: "due_date_iso sample_record_1 = Some ?due" by (simp add: sample_record_1_def)
  have a4: "no_rule_for sample_client" by (simp add: no_rule_for_def sample_client_def)
  have a5: "no_browser sample_client Unavailable" by (simp add: no_browser_def)
  have a6: "valid_date ?due" "6 < toordinal ?due" by (simp_all add: valid_date_def date_eval)
  have v: "fromordinal (toordinal ?due - 6) = \<lparr>year = 2025, month = 7, day = 7\<rparr>"
    by (simp add: date_eval)
  have f: "strftime_dmY \<lparr>year = 2025, month = 7, day = 7\<rparr> = ''07.07.2025''"
    by code_simp
  show ?thesis
    using renew_media_fallback_date [OF a1 a2 a3 a4 a5 a6, of sample_today sample_timeout sample_timeout]
    by (simp add: v f)
qed


subsection \<open>No exception leaves the renewal command\<close>








subsection \<open>The diagnostics of a failed login\<close>

lemma error_message_login_form:
  "error_container soup = None \<Longrightarrow> login_form_present soup \<Longrightarrow>
   login_error_message soup = ''Still on login page - credentials may be incorrect''"
  by (simp add: login_error_message_def)


text \<open>
  Claim C7, as amended. For every response to the login with status 200 that has no
  logout marker, no account-page marker, no reader-content marker and no error
  container, but a login form, the check raises the auth error
  \<open>Login failed: Still on login page - credentials may be incorrect\<close>, and so does
  the authentication as a whole once the login page gave a token.
\<close>

theorem login_form_means_bad_credentials:
  "p_status resp = 200 \<longrightarrow> \<not> logout_marker (p_text resp) \<longrightarrow> \<not> account_page_marker (p_soup resp) \<longrightarrow>
   \<not> reader_content_marker (p_soup resp) \<longrightarrow> login_form_present (p_soup resp) \<longrightarrow>
   error_container (p_soup resp) = None \<longrightarrow>
     check_login_response resp =
       Inl (ConfigEntryAuthFailed ''Login failed: Still on login page - credentials may be incorrect'')
     \<and> (\<forall>page token. p_status page = 200 \<longrightarrow> csrf_token_of (p_soup page) = Some token \<longrightarrow> token \<noteq> [] \<longrightarrow>
          create_authenticated_session (Inr page) (Inr resp) =
            Inl (ConfigEntryAuthFailed ''Login failed: Still on login page - credentials may be incorrect''))"
  by (simp add: check_login_response_def found_indicator_def error_message_login_form
      create_authenticated_session_def)


theorem login_form_means_bad_credentials_witness:
  "create_authenticated_session (Inr (sample_login_response 200)) (Inr (sample_login_response 200)) =
     Inl (ConfigEntryAuthFailed ''Login failed: Still on login page - credentials may be incorrect'')"
proof -
  let ?r = "sample_login_response 200"
  have h1: "p_status ?r = 200" by (simp add: sample_login_response_def)
  have h2: "\<not> logout_marker (p_text ?r)" unfolding sample_login_response_def by code_simp
  have h3: "\<not> account_page_marker (p_soup ?r)"
    unfolding sample_login_response_def sample_login_soup_def by code_simp
  have h4: "\<not> reader_content_marker (p_soup ?r)"
    unfolding sample_login_response_def sample_login_soup_def by code_simp
  have h5: "login_form_present (p_soup ?r)"
    unfolding sample_login_response_def sample_login_soup_def by code_simp
  have h6: "error_container (p_soup ?r) = None"
    unfolding sample_login_response_def sample_login_soup_def by code_simp
  have h7: "csrf_token_of (p_soup ?r) = Some ''tok123''"
    unfolding sample_login_response_def sample_login_soup_def by code_simp
  from login_form_means_bad_credentials [of ?r] h1 h2 h3 h4 h5 h6 h7 show ?thesis
    by (metis list.distinct(1))
qed


text \<open>
  The claim as first stated fails: the same response body under status 403 is refused
  before it is looked at, with the message \<open>Login failed with status 403\<close>.
\<close>

theorem login_status_counterexample:
  "\<not> logout_marker (p_text (sample_login_response 403))
   \<and> \<not> account_page_marker (p_soup (sample_login_response 403))
   \<and> \<not> reader_content_marker (p_soup (sample_login_response 403))
   \<and> login_form_present (p_soup (sample_login_response 403))
   \<and> error_container (p_soup (sample_login_response 403)) = None
   \<and> create_authenticated_session (Inr (sample_login_response 200)) (Inr (sample_login_response 403)) =
       Inl (ConfigEntryAuthFailed ''Login failed with status 403'')"
  unfolding sample_login_response_def sample_login_soup_def by code_simp

subsection \<open>Parsing a day and a month name\<close>

lemma rmatch_greedy:
  assumes "hi = (case mx of None \<Rightarrow> length (takeWhile p s) | Some m \<Rightarrow> min (length (takeWhile p s)) m)"
    and "mn \<le> hi" and "rmatch rs (drop hi s) = Some ns"
  shows "rmatch (RAtom p mn mx # rs) s = Some (hi # ns)"
proof -
  have "rev [mn..<Suc hi] = hi # rev [mn..<hi]" using assms(2) by simp
  then show ?thesis using assms(1,3) by (simp add: Let_def)
qed

lemma word_not_space: "is_word c \<Longrightarrow> \<not> is_space c"
  by (auto simp: is_word_def is_space_def)

lemma dot_classes: "\<not> is_digit CHR ''.''" "\<not> is_word CHR ''.''" "is_space CHR '' ''" "\<not> is_word CHR '' ''"
  by (simp_all add: is_digit_def is_word_def is_space_def code_def)

lemma day_month_match:
  assumes "ds \<noteq> []" "\<forall>c \<in> set ds. is_digit c" "w \<noteq> []" "\<forall>c \<in> set w. is_word c"
    and "dot = [] \<or> dot = ''.''"
  shows "rsearch re_day_month (ds @ ''. '' @ w @ dot) =
     Some (ds @ ''. '' @ w @ dot, [length ds, 1, 1, length w, length dot])"
proof -
  note rmatch.simps [simp del]
  have t5: "takeWhile (\<lambda>x. x = CHR ''.'') dot = dot" using assms(5) by auto
  have m5: "rmatch [RAtom (\<lambda>x. x = CHR ''.'') 0 (Some 1)] dot = Some [length dot]"
  proof (rule rmatch_greedy)
    show "length dot = (case Some 1 of None \<Rightarrow> length (takeWhile (\<lambda>x. x = CHR ''.'') dot)
        | Some m \<Rightarrow> min (length (takeWhile (\<lambda>x. x = CHR ''.'') dot)) m)"
      using assms(5) by (auto simp: t5)
    show "0 \<le> length dot" by simp
    show "rmatch [] (drop (length dot) dot) = Some []" by (simp add: rmatch.simps(1))
  qed
  have t4: "takeWhile is_word (w @ dot) = w"
    using assms(4,5) dot_classes by (auto simp: takeWhile_append2)
  have m4: "rmatch [RAtom is_word 1 None, RAtom (\<lambda>x. x = CHR ''.'') 0 (Some 1)] (w @ dot)
      = Some [length w, length dot]"
  proof (rule rmatch_greedy)
    show "length w = (case None of None \<Rightarrow> length (takeWhile is_word (w @ dot))
        | Some m \<Rightarrow> min (length (takeWhile is_word (w @ dot))) m)"
      by (simp add: t4)
    show "1 \<le> length w" using assms(3) by (simp add: Suc_le_eq)
    show "rmatch [RAtom (\<lambda>x. x = CHR ''.'') 0 (Some 1)] (drop (length w) (w @ dot)) = Some [length dot]"
      using m5 by simp
  qed
  have t3: "takeWhile is_space ('' '' @ w @ dot) = '' ''"
    using assms(3,4) dot_classes word_not_space by (cases w) auto
  have m3: "rmatch [RAtom is_space 0 None, RAtom is_word 1 None, RAtom (\<lambda>x. x = CHR ''.'') 0 (Some 1)]
        ('' '' @ w @ dot) = Some [1, length w, length dot]"
  proof (rule rmatch_greedy)
    show "1 = (case None of None \<Rightarrow> length (takeWhile is_space ('' '' @ w @ dot))
        | Some m \<Rightarrow> min (length (takeWhile is_space ('' '' @ w @ dot))) m)"
      by (simp only: t3) simp
    show "(0::nat) \<le> 1" by simp
    show "rmatch [RAtom is_word 1 None, RAtom (\<lambda>x. x = CHR ''.'') 0 (Some 1)]
        (drop 1 ('' '' @ w @ dot)) = Some [length w, length dot]"
      using m4 by simp
  qed
  have m2: "rmatch [one CHR ''.'', RAtom is_space 0 None, RAtom is_word 1 None,
        RAtom (\<lambda>x. x = CHR ''.'') 0 (Some 1)] (''. '' @ w @ dot) = Some [1, 1, length w, length dot]"
    unfolding one_def
  proof (rule rmatch_greedy)
    show "1 = (case Some 1 of None \<Rightarrow> length (takeWhile (\<lambda>x. x = CHR ''.'') (''. '' @ w @ dot))
        | Some m \<Rightarrow> min (length (takeWhile (\<lambda>x. x = CHR ''.'') (''. '' @ w @ dot))) m)"
      by simp
    show "(1::nat) \<le> 1" by simp
    show "rmatch [RAtom is_space 0 None, RAtom is_word 1 None, RAtom (\<lambda>x. x = CHR ''.'') 0 (Some 1)]
        (drop 1 (''. '' @ w @ dot)) = Some [1, length w, length dot]"
      using m3 by simp
  qed
  have t1: "takeWhile is_digit (ds @ ''. '' @ w @ dot) = ds"
    using assms(2) dot_classes by (simp add: takeWhile_append2)
  have m1: "rmatch re_day_month (ds @ ''. '' @ w @ dot) = Some [length ds, 1, 1, length w, length dot]"
    unfolding re_day_month_def
  proof (rule rmatch_greedy)
    show "length ds = (case None of None \<Rightarrow> length (takeWhile is_digit (ds @ ''. '' @ w @ dot))
        | Some m \<Rightarrow> min (length (takeWhile is_digit (ds @ ''. '' @ w @ dot))) m)"
      by (simp only: t1) simp
    show "1 \<le> length ds" using assms(1) by (simp add: Suc_le_eq)
    show "rmatch [one CHR ''.'', RAtom is_space 0 None, RAtom is_word 1 None,
        RAtom (\<lambda>x. x = CHR ''.'') 0 (Some 1)] (drop (length ds) (ds @ ''. '' @ w @ dot))
        = Some [1, 1, length w, length dot]"
      using m2 by simp
  qed
  obtain c cs where "ds = c # cs" using assms(1) by (cases ds) auto
  then show ?thesis using m1 by simp
qed

lemma month_tables_ok:
  "\<forall>kv \<in> set (months @ short_months). name_ok (fst kv) \<and> 1 \<le> snd kv \<and> snd kv \<le> 12"
  by (simp add: months_def short_months_def name_ok_def is_word_def code_def ae_def)

lemma month_number_ok:
  assumes "month_number mn = Some m"
  shows "name_ok mn \<and> 1 \<le> m \<and> m \<le> 12"
proof -
  have "(mn, m) \<in> set (months @ short_months)"
    using assms by (auto simp: month_number_def dict_get_def split: option.splits dest: map_of_SomeD)
  then show ?thesis using month_tables_ok by fastforce
qed

lemma name_split:
  assumes "name_ok mn"
  obtains w dot where "mn = w @ dot" "w \<noteq> []" "\<forall>c \<in> set w. is_word c" "dot = [] \<or> dot = ''.''"
proof (cases "last mn = CHR ''.''")
  case True
  moreover have "mn \<noteq> []" using assms by (simp add: name_ok_def Let_def)
  ultimately have "mn = butlast mn @ ''.''" by (metis append_butlast_last_id)
  then show ?thesis using that [of "butlast mn" "''.''"] assms True
    by (simp add: name_ok_def list_all_iff Let_def)
next
  case False
  then show ?thesis using that [of mn "[]"] assms by (simp add: name_ok_def list_all_iff Let_def)
qed

lemma day_month_groups:
  assumes "ds \<noteq> []" "\<forall>c \<in> set ds. is_digit c" "month_number mn = Some m"
  shows "rsearch re_day_month (ds @ ''. '' @ mn) = Some (s, ns) \<Longrightarrow>
     pieces ns s ! 0 = ds \<and> pieces ns s ! 3 @ pieces ns s ! 4 = mn"
    and "\<exists>s ns. rsearch re_day_month (ds @ ''. '' @ mn) = Some (s, ns)"
proof -
  obtain w dot where wd: "mn = w @ dot" "w \<noteq> []" "\<forall>c \<in> set w. is_word c" "dot = [] \<or> dot = ''.''"
    using month_number_ok [OF assms(3)] name_split by blast
  note m = day_month_match [OF assms(1,2) wd(2,3,4)]
  show "\<exists>s ns. rsearch re_day_month (ds @ ''. '' @ mn) = Some (s, ns)"
    using m wd(1) by simp
  assume "rsearch re_day_month (ds @ ''. '' @ mn) = Some (s, ns)"
  then have "s = ds @ ''. '' @ w @ dot" "ns = [length ds, 1, 1, length w, length dot]"
    using m wd(1) by simp_all
  then show "pieces ns s ! 0 = ds \<and> pieces ns s ! 3 @ pieces ns s ! 4 = mn"
    using wd(1) by simp
qed

text \<open>
  Claim C5, as amended. Take a text \<open><day>. <Month>\<close> without a year: decimal
  digits, a full stop, a blank and a month name of either table, where the day exists
  in that month of the current year and, if the date of the current year lies more than
  60 days in the past, also in that month of the next year (which is no later than
  9999). Then the parser returns the date with this month and day, in the current year,
  or in the next year exactly when the date of the current year lies more than 60 days
  in the past; the date returned is never more than 60 days in the past.
\<close>

theorem day_month_text_parses:
  assumes "valid_date today"
    and "ds \<noteq> []" and "\<forall>c \<in> set ds. is_digit c"
    and "month_number mn = Some m"
    and "1 \<le> py_int ds" and "py_int ds \<le> days_in_month (year today) m"
    and "60 < date_diff_days today \<lparr>year = year today, month = m, day = py_int ds\<rparr> \<longrightarrow>
           year today < MAXYEAR \<and> py_int ds \<le> days_in_month (year today + 1) m"
  shows "parse_german_date today (ds @ ''. '' @ mn) =
           Some \<lparr>year = (if 60 < date_diff_days today \<lparr>year = year today, month = m, day = py_int ds\<rparr>
                          then year today + 1 else year today),
                 month = m, day = py_int ds\<rparr>
         \<and> date_diff_days today
             \<lparr>year = (if 60 < date_diff_days today \<lparr>year = year today, month = m, day = py_int ds\<rparr>
                       then year today + 1 else year today),
              month = m, day = py_int ds\<rparr> \<le> 60"
proof -
  let ?d = "py_int ds"
  let ?cur = "\<lparr>year = year today, month = m, day = ?d\<rparr>"
  let ?next = "\<lparr>year = year today + 1, month = m, day = ?d\<rparr>"
  obtain s ns where sn: "rsearch re_day_month (ds @ ''. '' @ mn) = Some (s, ns)"
    using day_month_groups(2) [OF assms(2,3,4)] by blast
  have g: "pieces ns s ! 0 = ds" "pieces ns s ! 3 @ pieces ns s ! 4 = mn"
    using day_month_groups(1) [OF assms(2,3,4) sn] by simp_all
  have mr: "1 \<le> m" "m \<le> 12" using month_number_ok [OF assms(4)] by simp_all
  have yr: "1 \<le> year today" "year today \<le> MAXYEAR" using assms(1) by (simp_all add: valid_date_def)
  have cur: "date_new (year today) m ?d = Inr ?cur"
    using mr yr assms(5,6) by (simp add: date_new_def)
  have vcur: "valid_date ?cur" using mr yr assms(5,6) by (simp add: valid_date_def)
  have p: "parse_german_date today (ds @ ''. '' @ mn) =
      (if date_less ?cur today then
         (if 60 < date_diff_days today ?cur then
            (case date_new (year today + 1) m ?d of Inl e \<Rightarrow> None | Inr n \<Rightarrow> Some n)
          else Some ?cur)
       else Some ?cur)"
    unfolding parse_german_date_def sn by (simp add: g assms(4) cur Let_def)
  show ?thesis
  proof (cases "60 < date_diff_days today ?cur")
    case True
    then have ny: "year today < MAXYEAR" "?d \<le> days_in_month (year today + 1) m"
      using assms(7) by simp_all
    have "\<not> toordinal today \<le> toordinal ?cur" using True by (simp add: date_diff_days_def)
    then have less: "date_less ?cur today"
      using toordinal_same_year [OF vcur assms(1)] by auto
    have nx: "date_new (year today + 1) m ?d = Inr ?next"
      using mr yr ny assms(5) by (simp add: date_new_def)
    have vnext: "valid_date ?next" using mr yr ny assms(5) by (simp add: valid_date_def)
    have "toordinal today < toordinal ?next"
      using toordinal_next_year [OF assms(1) vnext] by simp
    then show ?thesis using True less p nx by (simp add: date_diff_days_def)
  next
    case False
    then show ?thesis using p by simp
  qed
qed


theorem day_month_text_parses_witness:
  "parse_german_date sample_today ''13. Apr.'' = Some \<lparr>year = 2026, month = 4, day = 13\<rparr>
   \<and> parse_german_date sample_today ''13. Juni'' = Some \<lparr>year = 2025, month = 6, day = 13\<rparr>"
proof -
  have v: "valid_date sample_today" by (simp add: sample_today_def valid_date_def date_eval)
  have d: "''13'' \<noteq> []" "\<forall>c \<in> set ''13''. is_digit c" by (simp_all add: is_digit_def code_def)
  have m1: "month_number ''Apr.'' = Some 4" by code_simp
  have m2: "month_number ''Juni'' = Some 6" by code_simp
  have i: "py_int ''13'' = 13" by (simp add: py_int_def code_def)
  have r1: "date_diff_days sample_today \<lparr>year = year sample_today, month = 4, day = 13\<rparr> = 79"
    by (simp add: sample_today_def date_eval)
  have r2: "date_diff_days sample_today \<lparr>year = year sample_today, month = 6, day = 13\<rparr> = 18"
    by (simp add: sample_today_def date_eval)
  have a: "parse_german_date sample_today (''13'' @ ''. '' @ ''Apr.'') = Some \<lparr>year = 2026, month = 4, day = 13\<rparr>"
    using day_month_text_parses [OF v d m1] i r1 by (simp add: sample_today_def date_eval)
  have b: "parse_german_date sample_today (''13'' @ ''. '' @ ''Juni'') = Some \<lparr>year = 2025, month = 6, day = 13\<rparr>"
    using day_month_text_parses [OF v d m2] i r2 by (simp add: sample_today_def date_eval)
  from a b show ?thesis by simp
qed


text \<open>
  The claim as first stated fails: on 1 July 2025 the texts \<open>31. Apr.\<close> and
  \<open>29. Feb.\<close> have the form, and the parser returns no date for them.
\<close>

theorem day_month_text_counterexample:
  "parse_german_date sample_today ''31. Apr.'' = None
   \<and> parse_german_date sample_today ''29. Feb.'' = None"
  unfolding sample_today_def by code_simp

end
